theory Spec2Isabelle
  imports Main "HOL-Library.AList" "HOL-Library.Sublist"
begin

section \<open>JavaScript values and coercions\<close>

text \<open>
  Tool arguments (\<^verbatim>\<open>Record<string, unknown>\<close>) and upstream response bodies
  (\<^verbatim>\<open>any\<close>) are untyped in the source, so they are modelled as JSON-like values.
  Numbers are restricted to integers; \<open>NaN\<close> is written \<open>None\<close> where a coercion
  can produce it. An object is an association list of its own properties in property
  order. A \<open>char\<close> stands for a code unit below 256.
\<close>

datatype jsval =
    JUndefined
  | JNull
  | JBool bool
  | JNum int
  | JStr string
  | JArr "jsval list"
  | JObj "(string \<times> jsval) list"

text \<open>Errors a call can throw: an axios error with its optional response, an
  \<^verbatim>\<open>Error\<close> built by the code, a \<^verbatim>\<open>TypeError\<close> of the runtime, and any other
  thrown value, kept as the text that \<^verbatim>\<open>`${error}`\<close> gives.\<close>

record http_response =
  status :: int
  data :: jsval

datatype js_error =
    AxiosError "http_response option"
  | JsError string
  | TypeError string
  | Thrown string

text \<open>\<^verbatim>\<open>`${error}`\<close>, used for errors that are not axios errors.\<close>

fun error_string :: "js_error \<Rightarrow> string" where
  "error_string (AxiosError r) = ''AxiosError''"
| "error_string (JsError m) = ''Error: '' @ m"
| "error_string (TypeError m) = ''TypeError: '' @ m"
| "error_string (Thrown s) = s"

fun show_nat :: "nat \<Rightarrow> string" where
  "show_nat n =
     (if n < 10 then [''0123456789'' ! n]
      else show_nat (n div 10) @ [''0123456789'' ! (n mod 10)])"

declare show_nat.simps [simp del]

definition show_int :: "int \<Rightarrow> string" where
  "show_int i = (if i < 0 then CHR ''-'' # show_nat (nat (- i)) else show_nat (nat i))"

text \<open>The string of a number. An integer of magnitude below \<open>10\<^sup>2\<^sup>1\<close> is printed in
  plain decimal; from there on the language prints an exponent form, which is taken as
  the parameter \<open>n2s\<close>.\<close>

definition show_number :: "(int \<Rightarrow> string) \<Rightarrow> int \<Rightarrow> string" where
  "show_number n2s i = (if \<bar>i\<bar> < 10 ^ 21 then show_int i else n2s i)"

fun join_comma :: "string list \<Rightarrow> string" where
  "join_comma [] = []"
| "join_comma [s] = s"
| "join_comma (s # t # ss) = s @ '','' @ join_comma (t # ss)"

text \<open>A loop over results that stops at the first throw: \<^verbatim>\<open>Array.prototype.map\<close>
  and \<^verbatim>\<open>join\<close> with a callback or a conversion that can throw.\<close>

fun map_throwing :: "('a \<Rightarrow> js_error + 'b) \<Rightarrow> 'a list \<Rightarrow> js_error + 'b list" where
  "map_throwing f [] = Inr []"
| "map_throwing f (x # xs) =
     (case f x of
        Inl err \<Rightarrow> Inl err
      | Inr y \<Rightarrow> (case map_throwing f xs of Inl err \<Rightarrow> Inl err | Inr ys \<Rightarrow> Inr (y # ys)))"

text \<open>\<^verbatim>\<open>String(v)\<close>. An absent argument reads as \<^verbatim>\<open>undefined\<close> and becomes the
  nine-character string "undefined". An object is converted through its \<open>toString\<close>:
  one that has an own property of that name (never callable in data that came as JSON)
  hides the inherited method, and the conversion throws; so does the conversion of an
  array that holds such an object, since \<^verbatim>\<open>join\<close> converts the elements.\<close>

fun js_String :: "(int \<Rightarrow> string) \<Rightarrow> jsval \<Rightarrow> js_error + string" where
  "js_String n2s JUndefined = Inr ''undefined''"
| "js_String n2s JNull = Inr ''null''"
| "js_String n2s (JBool b) = Inr (if b then ''true'' else ''false'')"
| "js_String n2s (JNum n) = Inr (show_number n2s n)"
| "js_String n2s (JStr s) = Inr s"
| "js_String n2s (JArr xs) =
     (case map_throwing id
             (map (\<lambda>x. if x = JUndefined \<or> x = JNull then Inr [] else js_String n2s x) xs) of
        Inl err \<Rightarrow> Inl err
      | Inr ss \<Rightarrow> Inr (join_comma ss))"
| "js_String n2s (JObj kvs) =
     (if map_of kvs ''toString'' \<noteq> None
      then Inl (TypeError ''Cannot convert object to primitive value'')
      else Inr ''[object Object]'')"

text \<open>\<^verbatim>\<open>Boolean(v)\<close>, also the test of \<^verbatim>\<open>if (v)\<close>, \<^verbatim>\<open>!v\<close>,
  \<^verbatim>\<open>a || b\<close> and \<^verbatim>\<open>a && b\<close>. It never throws.\<close>

fun js_truthy :: "jsval \<Rightarrow> bool" where
  "js_truthy JUndefined = False"
| "js_truthy JNull = False"
| "js_truthy (JBool b) = b"
| "js_truthy (JNum n) = (n \<noteq> 0)"
| "js_truthy (JStr s) = (s \<noteq> [])"
| "js_truthy (JArr xs) = True"
| "js_truthy (JObj kvs) = True"

text \<open>\<^verbatim>\<open>Number(v)\<close>; \<open>None\<close> is \<open>NaN\<close>. The conversion of a string to a number
  is the language's \<open>StringToNumber\<close>, taken as the parameter \<open>s2n\<close>. An array or an
  object is first converted to a string (its \<open>valueOf\<close> gives no primitive), which
  throws as above.\<close>

fun js_Number ::
  "(int \<Rightarrow> string) \<Rightarrow> (string \<Rightarrow> int option) \<Rightarrow> jsval \<Rightarrow> js_error + int option" where
  "js_Number n2s s2n JUndefined = Inr None"
| "js_Number n2s s2n JNull = Inr (Some 0)"
| "js_Number n2s s2n (JBool b) = Inr (Some (if b then 1 else 0))"
| "js_Number n2s s2n (JNum n) = Inr (Some n)"
| "js_Number n2s s2n (JStr s) = Inr (s2n s)"
| "js_Number n2s s2n (JArr xs) =
     (case js_String n2s (JArr xs) of Inl err \<Rightarrow> Inl err | Inr s \<Rightarrow> Inr (s2n s))"
| "js_Number n2s s2n (JObj kvs) =
     (case js_String n2s (JObj kvs) of Inl err \<Rightarrow> Inl err | Inr s \<Rightarrow> Inr (s2n s))"

text \<open>\<^verbatim>\<open>Number(v) || undefined\<close>: \<open>NaN\<close> and \<open>0\<close> are falsy.\<close>

definition number_or_undefined ::
  "(int \<Rightarrow> string) \<Rightarrow> (string \<Rightarrow> int option) \<Rightarrow> jsval \<Rightarrow> js_error + jsval" where
  "number_or_undefined n2s s2n v =
     (case js_Number n2s s2n v of
        Inl err \<Rightarrow> Inl err
      | Inr None \<Rightarrow> Inr JUndefined
      | Inr (Some n) \<Rightarrow> Inr (if n = 0 then JUndefined else JNum n))"

text \<open>\<^verbatim>\<open>JSON.stringify(v)\<close> without indentation; \<open>None\<close> is the result
  \<^verbatim>\<open>undefined\<close>. A string is quoted with the escapes of the language; a property
  whose value is \<^verbatim>\<open>undefined\<close> is left out, and such an array element is printed
  as \<open>null\<close>.\<close>

definition json_escape :: "char \<Rightarrow> string" where
  "json_escape c =
     (let n = (of_char c :: nat) in
      if n = 8 then [CHR 0x5C, CHR ''b'']
      else if n = 9 then [CHR 0x5C, CHR ''t'']
      else if n = 10 then [CHR 0x5C, CHR ''n'']
      else if n = 12 then [CHR 0x5C, CHR ''f'']
      else if n = 13 then [CHR 0x5C, CHR ''r'']
      else if n = 34 then [CHR 0x5C, CHR 0x22]
      else if n = 92 then [CHR 0x5C, CHR 0x5C]
      else if n < 32 then
        [CHR 0x5C, CHR ''u'', CHR ''0'', CHR ''0'',
         ''0123456789abcdef'' ! (n div 16), ''0123456789abcdef'' ! (n mod 16)]
      else [c])"

definition json_quote :: "string \<Rightarrow> string" where
  "json_quote s = CHR 0x22 # concat (map json_escape s) @ [CHR 0x22]"

fun JSON_stringify :: "(int \<Rightarrow> string) \<Rightarrow> jsval \<Rightarrow> string option" where
  "JSON_stringify n2s JUndefined = None"
| "JSON_stringify n2s JNull = Some ''null''"
| "JSON_stringify n2s (JBool b) = Some (if b then ''true'' else ''false'')"
| "JSON_stringify n2s (JNum n) = Some (show_number n2s n)"
| "JSON_stringify n2s (JStr s) = Some (json_quote s)"
| "JSON_stringify n2s (JArr xs) =
     Some (''['' @ join_comma
             (map (\<lambda>x. case JSON_stringify n2s x of None \<Rightarrow> ''null'' | Some s \<Rightarrow> s) xs)
           @ '']'')"
| "JSON_stringify n2s (JObj kvs) =
     Some (''{'' @ join_comma
             (concat (map (\<lambda>p. case JSON_stringify n2s (snd p) of
                                  None \<Rightarrow> []
                                | Some s \<Rightarrow> [json_quote (fst p) @ '':'' @ s]) kvs))
           @ ''}'')"

text \<open>\<^verbatim>\<open>`${JSON.stringify(v)}`\<close>\<close>

definition template_stringify :: "(int \<Rightarrow> string) \<Rightarrow> jsval \<Rightarrow> string" where
  "template_stringify n2s v =
     (case JSON_stringify n2s v of None \<Rightarrow> ''undefined'' | Some s \<Rightarrow> s)"

text \<open>Property read \<^verbatim>\<open>v.k\<close> for the keys the code reads (\<open>session_id\<close>,
  \<open>messages\<close>, \<open>sessions\<close>): it throws on \<^verbatim>\<open>undefined\<close> and \<^verbatim>\<open>null\<close>, looks the
  key up in an object, and is \<^verbatim>\<open>undefined\<close> on every other value.\<close>

definition obj_get :: "(string \<times> jsval) list \<Rightarrow> string \<Rightarrow> jsval" where
  "obj_get kvs k = (case map_of kvs k of None \<Rightarrow> JUndefined | Some v \<Rightarrow> v)"

fun js_get :: "jsval \<Rightarrow> string \<Rightarrow> js_error + jsval" where
  "js_get JUndefined k =
     Inl (TypeError (''Cannot read properties of undefined (reading ''
                     @ [CHR 0x27] @ k @ [CHR 0x27] @ '')''))"
| "js_get JNull k =
     Inl (TypeError (''Cannot read properties of null (reading ''
                     @ [CHR 0x27] @ k @ [CHR 0x27] @ '')''))"
| "js_get (JObj kvs) k = Inr (obj_get kvs k)"
| "js_get v k = Inr JUndefined"

text \<open>Object spread \<^verbatim>\<open>{...v}\<close>: the own enumerable properties. An array and a
  string spread their elements under index keys; other primitives spread nothing.\<close>

fun index_from :: "nat \<Rightarrow> jsval list \<Rightarrow> (string \<times> jsval) list" where
  "index_from i [] = []"
| "index_from i (x # xs) = (show_nat i, x) # index_from (Suc i) xs"

fun js_spread :: "jsval \<Rightarrow> (string \<times> jsval) list" where
  "js_spread (JObj kvs) = kvs"
| "js_spread (JArr xs) = index_from 0 xs"
| "js_spread (JStr s) = index_from 0 (map (\<lambda>c. JStr [c]) s)"
| "js_spread v = []"

section \<open>Session-id normalizer and channel-id resolver\<close>

text \<open>\<^verbatim>\<open>sessionId.replace(/^devin-/, '')\<close>\<close>

definition normalizeSessionId :: "string \<Rightarrow> string" where
  "normalizeSessionId sessionId =
     (if take 6 sessionId = ''devin-'' then drop 6 sessionId else sessionId)"

text \<open>The call \<^verbatim>\<open>normalizeSessionId(v)\<close> on an untyped value: \<^verbatim>\<open>v.replace\<close> exists
  on strings only.\<close>

fun call_normalizeSessionId :: "jsval \<Rightarrow> js_error + string" where
  "call_normalizeSessionId (JStr s) = Inr (normalizeSessionId s)"
| "call_normalizeSessionId JUndefined =
     Inl (TypeError (''Cannot read properties of undefined (reading ''
                     @ [CHR 0x27] @ ''replace'' @ [CHR 0x27] @ '')''))"
| "call_normalizeSessionId JNull =
     Inl (TypeError (''Cannot read properties of null (reading ''
                     @ [CHR 0x27] @ ''replace'' @ [CHR 0x27] @ '')''))"
| "call_normalizeSessionId v = Inl (TypeError ''sessionId.replace is not a function'')"

text \<open>\<^verbatim>\<open>/^[C][A-Z0-9]{8,}$/.test(s)\<close>; the character ranges are code-point ranges.\<close>

definition upper_alnum :: "char \<Rightarrow> bool" where
  "upper_alnum c =
     (let n = (of_char c :: nat) in (65 \<le> n \<and> n \<le> 90) \<or> (48 \<le> n \<and> n \<le> 57))"

fun matches_channel_id :: "string \<Rightarrow> bool" where
  "matches_channel_id [] = False"
| "matches_channel_id (c # cs) = (c = CHR ''C'' \<and> 8 \<le> length cs \<and> list_all upper_alnum cs)"

section \<open>The outside world\<close>

record channel_info =
  channel_id :: "string option"
  channel_name :: "string option"

record profile =
  display_name :: "string option"

record member =
  user_id :: "string option"
  user_name :: "string option"
  real_name :: "string option"
  user_profile :: "profile option"

record message_options =
  channel :: jsval
  msg_text :: string
  thread_ts :: jsval
  as_user :: bool

record post_response =
  response_ts :: "string option"

text \<open>Every outbound call, in the order issued. The two axios calls carry url, body or
  query parameters, and headers.\<close>

datatype call =
    AxiosPost string jsval "(string \<times> string) list"
  | AxiosGet string "(string \<times> jsval) list" "(string \<times> string) list"
  | ConversationsList
  | UsersList
  | ChatPostMessage message_options

text \<open>The configuration constants of the process and the answers of the two services.
  No handler issues the same call twice, so a function from the call to its outcome
  covers every behaviour of the services during one invocation; \<open>Inl\<close> is a throw.\<close>

record env =
  API_KEY :: string
  ORG_NAME :: string
  BASE_URL :: string
  SLACK_DEFAULT_CHANNEL :: string
  NumberToString :: "int \<Rightarrow> string"
  StringToNumber :: "string \<Rightarrow> int option"
  axios_post :: "string \<Rightarrow> jsval \<Rightarrow> js_error + http_response"
  axios_get :: "string \<Rightarrow> (string \<times> jsval) list \<Rightarrow> js_error + http_response"
  conversations_list :: "js_error + channel_info list option"
  users_list :: "js_error + member list option"
  chat_postMessage :: "message_options \<Rightarrow> js_error + post_response"

definition getHeaders :: "env \<Rightarrow> (string \<times> string) list" where
  "getHeaders e =
     [(''Authorization'', ''Bearer '' @ API_KEY e), (''Content-Type'', ''application/json'')]"

text \<open>\<open>getChannelId\<close> is declared on strings, but its callers pass arguments cast
  without a check, so the model keeps the untyped value: the pattern is tested on its
  string conversion, which can throw, and \<^verbatim>\<open>startsWith\<close> exists on strings
  only.\<close>

definition getChannelId :: "env \<Rightarrow> jsval \<Rightarrow> (js_error + jsval) \<times> call list" where
  "getChannelId e channelNameOrId =
     (case js_String (NumberToString e) channelNameOrId of
        Inl err \<Rightarrow> (Inl err, [])
      | Inr str \<Rightarrow>
          if matches_channel_id str then (Inr channelNameOrId, [])
          else
            (let notFound = Inl (JsError (''Channel not found: '' @ str)) in
             (case conversations_list e of
                Inl err \<Rightarrow> Inl err
              | Inr None \<Rightarrow> notFound
              | Inr (Some channels) \<Rightarrow>
                  (case channelNameOrId of
                     JStr s \<Rightarrow>
                       (let normalizedName = (if take 1 s = ''#'' then drop 1 s else s) in
                        (case find (\<lambda>ch. channel_name ch = Some normalizedName) channels of
                           None \<Rightarrow> notFound
                         | Some ch \<Rightarrow>
                             (case channel_id ch of
                                None \<Rightarrow> notFound
                              | Some i \<Rightarrow> if i \<noteq> [] then Inr (JStr i) else notFound)))
                   | _ \<Rightarrow> Inl (TypeError ''channelNameOrId.startsWith is not a function''))),
             [ConversationsList]))"

definition sendSlackMessage ::
  "env \<Rightarrow> jsval \<Rightarrow> string \<Rightarrow> jsval \<Rightarrow> (js_error + post_response) \<times> call list" where
  "sendSlackMessage e chan txt threadTs =
     (case getChannelId e chan of
        (Inl err, cs) \<Rightarrow> (Inl err, cs)
      | (Inr channelId, cs) \<Rightarrow>
          (let messageOptions =
                 \<lparr>channel = channelId, msg_text = txt, thread_ts = threadTs, as_user = True\<rparr>
           in (chat_postMessage e messageOptions, cs @ [ChatPostMessage messageOptions])))"

section \<open>Result envelopes\<close>

text \<open>The text of an envelope is either a string the code builds, or
  \<^verbatim>\<open>JSON.stringify(v, null, 2)\<close> of a value, which is kept as that value.
  \<open>isError = False\<close> stands for an envelope without the field; the code never writes
  \<^verbatim>\<open>isError: false\<close>.\<close>

datatype fragment = Lit string | StringifyIndent jsval

record envelope =
  content_text :: "fragment list"
  isError :: bool

definition error_result :: "string \<Rightarrow> envelope" where
  "error_result msg = \<lparr>content_text = [Lit msg], isError = True\<rparr>"

definition json_result :: "jsval \<Rightarrow> envelope" where
  "json_result v = \<lparr>content_text = [StringifyIndent v], isError = False\<rparr>"

text \<open>The \<^verbatim>\<open>catch\<close> block shared by the tool cases; \<open>label\<close> is the case's own
  prefix. The first case is \<^verbatim>\<open>axios.isAxiosError(error)\<close>, with
  \<^verbatim>\<open>error.response?.status\<close> and \<^verbatim>\<open>JSON.stringify(error.response?.data)\<close>
  interpolated into one template string.\<close>

definition catch_envelope :: "env \<Rightarrow> string \<Rightarrow> js_error \<Rightarrow> envelope" where
  "catch_envelope e label err =
     (case err of
        AxiosError r \<Rightarrow>
          \<lparr>content_text =
             [Lit (label @ '': ''
                   @ (case r of
                        None \<Rightarrow> ''undefined''
                      | Some x \<Rightarrow> show_number (NumberToString e) (status x))
                   @ '' - ''
                   @ template_stringify (NumberToString e)
                       (case r of None \<Rightarrow> JUndefined | Some x \<Rightarrow> data x))],
           isError = True\<rparr>
      | _ \<Rightarrow>
          \<lparr>content_text = [Lit (''Unexpected error: '' @ error_string err)],
           isError = True\<rparr>)"

text \<open>\<^verbatim>\<open>request.params.arguments?.k\<close>\<close>

definition arg :: "(string \<times> jsval) list option \<Rightarrow> string \<Rightarrow> jsval" where
  "arg args k = (case args of None \<Rightarrow> JUndefined | Some kvs \<Rightarrow> obj_get kvs k)"

definition opt_str :: "string option \<Rightarrow> jsval" where
  "opt_str s = (case s of None \<Rightarrow> JUndefined | Some x \<Rightarrow> JStr x)"

text \<open>The outcome of a handler: \<open>Inl\<close> when it throws, which only the conversions of
  the arguments ahead of its \<^verbatim>\<open>try\<close> can do, and then no envelope is returned and
  no call was issued; otherwise the envelope and the calls issued.\<close>

type_synonym outcome = "js_error + envelope \<times> call list"

fun envelope_of :: "outcome \<Rightarrow> envelope option" where
  "envelope_of (Inl err) = None"
| "envelope_of (Inr (env, cs)) = Some env"

fun calls_of :: "outcome \<Rightarrow> call list" where
  "calls_of (Inl err) = []"
| "calls_of (Inr (env, cs)) = cs"

section \<open>Tool handlers, Slack-integrated variant\<close>

subsection \<open>create\_devin\_session\<close>

text \<open>The inner \<^verbatim>\<open>try\<close> that looks the bot user up; a failure leaves the id empty.\<close>

definition is_devin :: "member \<Rightarrow> bool" where
  "is_devin u =
     (user_name u = Some ''devin'' \<or> real_name u = Some ''Devin'' \<or>
      (case user_profile u of None \<Rightarrow> False | Some p \<Rightarrow> display_name p = Some ''Devin''))"

definition find_devin_user :: "env \<Rightarrow> string" where
  "find_devin_user e =
     (case users_list e of
        Inl userError \<Rightarrow> []
      | Inr None \<Rightarrow> []
      | Inr (Some members) \<Rightarrow>
          (case find is_devin members of
             None \<Rightarrow> []
           | Some devinUser \<Rightarrow> (case user_id devinUser of None \<Rightarrow> [] | Some i \<Rightarrow> i)))"

text \<open>The object of the success envelope. Reading \<^verbatim>\<open>response.data.session_id\<close>
  and calling \<open>normalizeSessionId\<close> on it are the two places that can throw.\<close>

definition create_payload :: "env \<Rightarrow> jsval \<Rightarrow> post_response \<Rightarrow> jsval \<Rightarrow> js_error + jsval" where
  "create_payload e d slackResponse slack_channel =
     (case js_get d ''session_id'' of
        Inl err \<Rightarrow> Inl err
      | Inr sid \<Rightarrow>
          (case call_normalizeSessionId sid of
             Inl err \<Rightarrow> Inl err
           | Inr n \<Rightarrow>
               Inr (JObj
                 [(''session_id'', JStr n),
                  (''original_session_id'', sid),
                  (''url'', (case js_get d ''url'' of Inl err \<Rightarrow> JUndefined | Inr v \<Rightarrow> v)),
                  (''organization'', JStr (ORG_NAME e)),
                  (''is_new_session'',
                     (case js_get d ''is_new_session'' of Inl err \<Rightarrow> JUndefined | Inr v \<Rightarrow> v)),
                  (''slack_message_ts'', opt_str (response_ts slackResponse)),
                  (''slack_channel'', slack_channel)])))"

definition create_request_body :: "string \<Rightarrow> bool \<Rightarrow> jsval \<Rightarrow> jsval \<Rightarrow> jsval" where
  "create_request_body prompt idempotent machine_snapshot_id max_acu =
     JObj ([(''prompt'', JStr prompt), (''idempotent'', JBool idempotent)]
           @ (if js_truthy machine_snapshot_id
              then [(''machine_snapshot_id'', machine_snapshot_id)] else [])
           @ (if js_truthy max_acu then [(''max_acu'', max_acu)] else []))"

text \<open>The body of the case after its \<^verbatim>\<open>const\<close> declarations.\<close>

definition create_body ::
  "env \<Rightarrow> string \<Rightarrow> jsval \<Rightarrow> jsval \<Rightarrow> bool \<Rightarrow> jsval \<Rightarrow> envelope \<times> call list" where
  "create_body e prompt machine_snapshot_id max_acu idempotent slack_channel =
     (if prompt = [] then (error_result ''Error: prompt is required'', [])
      else
        (let requestBody = create_request_body prompt idempotent machine_snapshot_id max_acu;
             url = BASE_URL e @ ''/session'';
             c0 = [AxiosPost url requestBody (getHeaders e)]
         in
         (case axios_post e url requestBody of
            Inl err \<Rightarrow> (catch_envelope e ''Error creating session'' err, c0)
          | Inr response \<Rightarrow>
              (let devinUserId = find_devin_user e;
                   slackMessage =
                     (if devinUserId \<noteq> [] then ''<@'' @ devinUserId @ ''> '' @ prompt
                      else ''@Devin '' @ prompt)
               in
               (case sendSlackMessage e slack_channel slackMessage JUndefined of
                  (Inl err, c2) \<Rightarrow>
                    (catch_envelope e ''Error creating session'' err, c0 @ [UsersList] @ c2)
                | (Inr slackResponse, c2) \<Rightarrow>
                    (case create_payload e (data response) slackResponse slack_channel of
                       Inl err \<Rightarrow>
                         (catch_envelope e ''Error creating session'' err,
                          c0 @ [UsersList] @ c2)
                     | Inr v \<Rightarrow> (json_result v, c0 @ [UsersList] @ c2)))))))"

text \<open>The declarations convert the arguments in source order, outside the
  \<^verbatim>\<open>try\<close>: \<^verbatim>\<open>String(prompt)\<close>, then \<^verbatim>\<open>Number(max_acu) || undefined\<close>.\<close>

definition create_devin_session :: "env \<Rightarrow> (string \<times> jsval) list option \<Rightarrow> outcome" where
  "create_devin_session e args =
     (case js_String (NumberToString e) (arg args ''prompt'') of
        Inl err \<Rightarrow> Inl err
      | Inr prompt \<Rightarrow>
          (case number_or_undefined (NumberToString e) (StringToNumber e) (arg args ''max_acu'') of
             Inl err \<Rightarrow> Inl err
           | Inr max_acu \<Rightarrow>
               Inr (create_body e prompt (arg args ''machine_snapshot_id'') max_acu
                      (js_truthy (arg args ''idempotent''))
                      (if js_truthy (arg args ''slack_channel'') then arg args ''slack_channel''
                       else JStr (SLACK_DEFAULT_CHANNEL e)))))"

subsection \<open>get\_devin\_session\<close>

text \<open>The inner \<^verbatim>\<open>try\<close> of \<open>fetch_slack_info\<close>: on any throw the data stay as
  they were.\<close>

definition fetch_messages :: "env \<Rightarrow> string \<Rightarrow> jsval \<Rightarrow> jsval" where
  "fetch_messages e url d =
     (case axios_get e (url @ ''/message'') [] of
        Inl slackError \<Rightarrow> d
      | Inr sessionResponse \<Rightarrow>
          (case js_get (data sessionResponse) ''messages'' of
             Inl slackError \<Rightarrow> d
           | Inr m \<Rightarrow> JObj (AList.update ''messages'' m (js_spread d))))"

text \<open>\<^verbatim>\<open>{...v, original_session_id: sid, session_id: normalizeSessionId(sid)}\<close>\<close>

definition with_session_ids :: "jsval \<Rightarrow> jsval \<Rightarrow> js_error + jsval" where
  "with_session_ids v sid =
     (case call_normalizeSessionId sid of
        Inl err \<Rightarrow> Inl err
      | Inr n \<Rightarrow>
          Inr (JObj (AList.update ''session_id'' (JStr n)
                      (AList.update ''original_session_id'' sid (js_spread v)))))"

text \<open>\<^verbatim>\<open>if (data && data.session_id) { data = {...} }\<close>\<close>

definition reattach_session_id :: "jsval \<Rightarrow> js_error + jsval" where
  "reattach_session_id d =
     (if js_truthy d then
        (case js_get d ''session_id'' of
           Inl err \<Rightarrow> Inl err
         | Inr sid \<Rightarrow> if js_truthy sid then with_session_ids d sid else Inr d)
      else Inr d)"

definition get_body :: "env \<Rightarrow> string \<Rightarrow> bool \<Rightarrow> envelope \<times> call list" where
  "get_body e session_id fetch_slack_info =
     (if session_id = [] then (error_result ''Error: session_id is required'', [])
      else
        (let url = BASE_URL e @ ''/session/'' @ normalizeSessionId session_id;
             c0 = [AxiosGet url [] (getHeaders e)]
         in
         (case axios_get e url [] of
            Inl err \<Rightarrow> (catch_envelope e ''Error getting session'' err, c0)
          | Inr response \<Rightarrow>
              (let d = (if fetch_slack_info then fetch_messages e url (data response)
                        else data response);
                   cs = (if fetch_slack_info
                         then c0 @ [AxiosGet (url @ ''/message'') [] (getHeaders e)] else c0)
               in
               (case reattach_session_id d of
                  Inl err \<Rightarrow> (catch_envelope e ''Error getting session'' err, cs)
                | Inr d' \<Rightarrow> (json_result d', cs))))))"

definition get_devin_session :: "env \<Rightarrow> (string \<times> jsval) list option \<Rightarrow> outcome" where
  "get_devin_session e args =
     (case js_String (NumberToString e) (arg args ''session_id'') of
        Inl err \<Rightarrow> Inl err
      | Inr session_id \<Rightarrow>
          Inr (get_body e session_id (js_truthy (arg args ''fetch_slack_info''))))"

subsection \<open>send\_message\_to\_session\<close>

definition send_body ::
  "env \<Rightarrow> string \<Rightarrow> string \<Rightarrow> jsval \<Rightarrow> jsval \<Rightarrow> envelope \<times> call list" where
  "send_body e session_id message slack_channel slack_thread_ts =
     (if session_id = [] then (error_result ''Error: session_id is required'', [])
      else if message = [] then (error_result ''Error: message is required'', [])
      else
        (let url = BASE_URL e @ ''/session/'' @ normalizeSessionId session_id @ ''/message'';
             body = JObj [(''message'', JStr message)];
             c0 = [AxiosPost url body (getHeaders e)]
         in
         (case axios_post e url body of
            Inl err \<Rightarrow> (catch_envelope e ''Error sending message'' err, c0)
          | Inr response \<Rightarrow>
              (let isSuccess = (200 \<le> status response \<and> status response < 300);
                   response_data =
                     (if js_truthy (data response) then data response else JObj [])
               in
               if isSuccess \<and> js_truthy slack_channel \<and> js_truthy slack_thread_ts then
                 (case sendSlackMessage e slack_channel message slack_thread_ts of
                    (Inl err, c1) \<Rightarrow> (catch_envelope e ''Error sending message'' err, c0 @ c1)
                  | (Inr slackResponse, c1) \<Rightarrow>
                      (json_result (JObj
                         [(''status'', JStr ''Message sent successfully''),
                          (''success'', JBool True),
                          (''response_data'', response_data),
                          (''slack_response'', JObj
                             [(''channel'', slack_channel),
                              (''thread_ts'', slack_thread_ts),
                              (''message_ts'', opt_str (response_ts slackResponse))])]),
                       c0 @ c1))
               else if isSuccess then
                 (json_result (JObj
                    [(''status'', JStr ''Message sent successfully''),
                     (''success'', JBool True),
                     (''response_data'', response_data),
                     (''slack_response'', JNull)]),
                  c0)
               else
                 (\<lparr>content_text =
                     [StringifyIndent (JObj
                        [(''status'', JStr ''Message sending failed''),
                         (''success'', JBool False),
                         (''http_status'', JNum (status response)),
                         (''response_data'', response_data)])],
                   isError = True\<rparr>,
                  c0)))))"

definition send_message_to_session ::
  "env \<Rightarrow> (string \<times> jsval) list option \<Rightarrow> outcome" where
  "send_message_to_session e args =
     (case js_String (NumberToString e) (arg args ''session_id'') of
        Inl err \<Rightarrow> Inl err
      | Inr session_id \<Rightarrow>
          (case js_String (NumberToString e) (arg args ''message'') of
             Inl err \<Rightarrow> Inl err
           | Inr message \<Rightarrow>
               Inr (send_body e session_id message (arg args ''slack_channel'')
                      (arg args ''slack_thread_ts''))))"

subsection \<open>list\_devin\_sessions\<close>

text \<open>The callback of \<^verbatim>\<open>sessions.map\<close>.\<close>

definition normalize_entry :: "jsval \<Rightarrow> js_error + jsval" where
  "normalize_entry session =
     (case js_get session ''session_id'' of
        Inl err \<Rightarrow> Inl err
      | Inr sid \<Rightarrow> if js_truthy sid then with_session_ids session sid else Inr session)"

definition normalize_sessions :: "jsval \<Rightarrow> js_error + jsval" where
  "normalize_sessions d =
     (let normalizedData = js_spread d in
      (case obj_get normalizedData ''sessions'' of
         JArr sessions \<Rightarrow>
           (case map_throwing normalize_entry sessions of
              Inl err \<Rightarrow> Inl err
            | Inr sessions' \<Rightarrow>
                Inr (JObj (AList.update ''sessions'' (JArr sessions') normalizedData)))
       | _ \<Rightarrow> Inr (JObj normalizedData)))"

definition list_body :: "env \<Rightarrow> jsval \<Rightarrow> jsval \<Rightarrow> envelope \<times> call list" where
  "list_body e limit offset =
     (let params = (if limit \<noteq> JUndefined then [(''limit'', limit)] else [])
                   @ (if offset \<noteq> JUndefined then [(''offset'', offset)] else []);
          url = BASE_URL e @ ''/session'';
          c0 = [AxiosGet url params (getHeaders e)]
      in
      (case axios_get e url params of
         Inl err \<Rightarrow> (catch_envelope e ''Error listing sessions'' err, c0)
       | Inr response \<Rightarrow>
           (case normalize_sessions (data response) of
              Inl err \<Rightarrow> (catch_envelope e ''Error listing sessions'' err, c0)
            | Inr normalizedData \<Rightarrow> (json_result normalizedData, c0))))"

definition list_devin_sessions :: "env \<Rightarrow> (string \<times> jsval) list option \<Rightarrow> outcome" where
  "list_devin_sessions e args =
     (case number_or_undefined (NumberToString e) (StringToNumber e) (arg args ''limit'') of
        Inl err \<Rightarrow> Inl err
      | Inr limit \<Rightarrow>
          (case number_or_undefined (NumberToString e) (StringToNumber e) (arg args ''offset'') of
             Inl err \<Rightarrow> Inl err
           | Inr offset \<Rightarrow> Inr (list_body e limit offset)))"

subsection \<open>get\_organization\_info and the dispatch on the tool name\<close>

definition get_organization_info :: "env \<Rightarrow> outcome" where
  "get_organization_info e =
     Inr (json_result (JObj [(''name'', JStr (ORG_NAME e)), (''base_url'', JStr (BASE_URL e))]),
          [])"

definition call_tool :: "env \<Rightarrow> string \<Rightarrow> (string \<times> jsval) list option \<Rightarrow> outcome" where
  "call_tool e name args =
     (if name = ''create_devin_session'' then create_devin_session e args
      else if name = ''get_devin_session'' then get_devin_session e args
      else if name = ''send_message_to_session'' then send_message_to_session e args
      else if name = ''list_devin_sessions'' then list_devin_sessions e args
      else if name = ''get_organization_info'' then get_organization_info e
      else Inr (error_result (''Unknown tool: '' @ name), []))"

section \<open>Tool handlers, variant without Slack\<close>

text \<open>The second entry point of the repository declares the same five tools and calls
  the coding-agent service only. Its handlers are prefixed \<open>plain_\<close>.\<close>

definition plain_create_body ::
  "env \<Rightarrow> string \<Rightarrow> jsval \<Rightarrow> jsval \<Rightarrow> bool \<Rightarrow> envelope \<times> call list" where
  "plain_create_body e prompt machine_snapshot_id max_acu idempotent =
     (if prompt = [] then (error_result ''Error: prompt is required'', [])
      else
        (let requestBody = create_request_body prompt idempotent machine_snapshot_id max_acu;
             url = BASE_URL e @ ''/sessions'';
             c0 = [AxiosPost url requestBody (getHeaders e)]
         in
         (case axios_post e url requestBody of
            Inl err \<Rightarrow> (catch_envelope e ''Error creating session'' err, c0)
          | Inr response \<Rightarrow>
              (case js_get (data response) ''session_id'' of
                 Inl err \<Rightarrow> (catch_envelope e ''Error creating session'' err, c0)
               | Inr sid \<Rightarrow>
                   (json_result (JObj
                      [(''session_id'', sid),
                       (''url'',
                          (case js_get (data response) ''url'' of
                             Inl err \<Rightarrow> JUndefined | Inr v \<Rightarrow> v)),
                       (''organization'', JStr (ORG_NAME e)),
                       (''is_new_session'',
                          (case js_get (data response) ''is_new_session'' of
                             Inl err \<Rightarrow> JUndefined | Inr v \<Rightarrow> v))]),
                    c0)))))"

definition plain_create_devin_session ::
  "env \<Rightarrow> (string \<times> jsval) list option \<Rightarrow> outcome" where
  "plain_create_devin_session e args =
     (case js_String (NumberToString e) (arg args ''prompt'') of
        Inl err \<Rightarrow> Inl err
      | Inr prompt \<Rightarrow>
          (case number_or_undefined (NumberToString e) (StringToNumber e) (arg args ''max_acu'') of
             Inl err \<Rightarrow> Inl err
           | Inr max_acu \<Rightarrow>
               Inr (plain_create_body e prompt (arg args ''machine_snapshot_id'') max_acu
                      (js_truthy (arg args ''idempotent'')))))"

definition plain_get_body :: "env \<Rightarrow> string \<Rightarrow> envelope \<times> call list" where
  "plain_get_body e session_id =
     (if session_id = [] then (error_result ''Error: session_id is required'', [])
      else
        (let url = BASE_URL e @ ''/session/'' @ session_id;
             c0 = [AxiosGet url [] (getHeaders e)]
         in
         (case axios_get e url [] of
            Inl err \<Rightarrow> (catch_envelope e ''Error getting session'' err, c0)
          | Inr response \<Rightarrow> (json_result (data response), c0))))"

definition plain_get_devin_session ::
  "env \<Rightarrow> (string \<times> jsval) list option \<Rightarrow> outcome" where
  "plain_get_devin_session e args =
     (case js_String (NumberToString e) (arg args ''session_id'') of
        Inl err \<Rightarrow> Inl err
      | Inr session_id \<Rightarrow> Inr (plain_get_body e session_id))"

definition plain_send_body :: "env \<Rightarrow> string \<Rightarrow> string \<Rightarrow> envelope \<times> call list" where
  "plain_send_body e session_id message =
     (if session_id = [] then (error_result ''Error: session_id is required'', [])
      else if message = [] then (error_result ''Error: message is required'', [])
      else
        (let url = BASE_URL e @ ''/session/'' @ session_id @ ''/message'';
             body = JObj [(''message'', JStr message)];
             c0 = [AxiosPost url body (getHeaders e)]
         in
         (case axios_post e url body of
            Inl err \<Rightarrow> (catch_envelope e ''Error sending message'' err, c0)
          | Inr response \<Rightarrow>
              (json_result (JObj
                 [(''success'', JBool True),
                  (''session_id'', JStr session_id),
                  (''message_sent'', JStr message),
                  (''response'', data response)]),
               c0))))"

definition plain_send_message_to_session ::
  "env \<Rightarrow> (string \<times> jsval) list option \<Rightarrow> outcome" where
  "plain_send_message_to_session e args =
     (case js_String (NumberToString e) (arg args ''session_id'') of
        Inl err \<Rightarrow> Inl err
      | Inr session_id \<Rightarrow>
          (case js_String (NumberToString e) (arg args ''message'') of
             Inl err \<Rightarrow> Inl err
           | Inr message \<Rightarrow> Inr (plain_send_body e session_id message)))"

definition plain_list_body :: "env \<Rightarrow> jsval \<Rightarrow> jsval \<Rightarrow> envelope \<times> call list" where
  "plain_list_body e limit offset =
     (let params = (if limit \<noteq> JUndefined then [(''limit'', limit)] else [])
                   @ (if offset \<noteq> JUndefined then [(''offset'', offset)] else []);
          url = BASE_URL e @ ''/sessions'';
          c0 = [AxiosGet url params (getHeaders e)]
      in
      (case axios_get e url params of
         Inl err \<Rightarrow> (catch_envelope e ''Error listing sessions'' err, c0)
       | Inr response \<Rightarrow> (json_result (data response), c0)))"

definition plain_list_devin_sessions ::
  "env \<Rightarrow> (string \<times> jsval) list option \<Rightarrow> outcome" where
  "plain_list_devin_sessions e args =
     (case number_or_undefined (NumberToString e) (StringToNumber e) (arg args ''limit'') of
        Inl err \<Rightarrow> Inl err
      | Inr limit \<Rightarrow>
          (case number_or_undefined (NumberToString e) (StringToNumber e) (arg args ''offset'') of
             Inl err \<Rightarrow> Inl err
           | Inr offset \<Rightarrow> Inr (plain_list_body e limit offset)))"

definition plain_call_tool ::
  "env \<Rightarrow> string \<Rightarrow> (string \<times> jsval) list option \<Rightarrow> outcome" where
  "plain_call_tool e name args =
     (if name = ''create_devin_session'' then plain_create_devin_session e args
      else if name = ''get_devin_session'' then plain_get_devin_session e args
      else if name = ''send_message_to_session'' then plain_send_message_to_session e args
      else if name = ''list_devin_sessions'' then plain_list_devin_sessions e args
      else if name = ''get_organization_info'' then get_organization_info e
      else Inr (error_result (''Unknown tool: '' @ name), []))"

section \<open>Observations on a run\<close>

fun is_agent_post :: "call \<Rightarrow> bool" where
  "is_agent_post (AxiosPost url body hs) = True"
| "is_agent_post c = False"

fun is_chat_post :: "call \<Rightarrow> bool" where
  "is_chat_post (ChatPostMessage opts) = True"
| "is_chat_post c = False"

text \<open>A concrete environment in which every service answers: the agent returns a session
  object, the workspace has one channel and the bot user, and a post gets a timestamp.\<close>

definition sample_session :: jsval where
  "sample_session =
     JObj [(''session_id'', JStr ''devin-abc123''),
           (''url'', JStr ''https://app.devin.ai/sessions/abc123''),
           (''is_new_session'', JBool True)]"

definition sample_env :: env where
  "sample_env =
     \<lparr>API_KEY = ''key'',
      ORG_NAME = ''Default Organization'',
      BASE_URL = ''https://api.devin.ai/v1'',
      SLACK_DEFAULT_CHANNEL = ''general'',
      NumberToString = (\<lambda>i. ''1e+21''),
      StringToNumber = (\<lambda>s. None),
      axios_post = (\<lambda>url body. Inr \<lparr>status = 200, data = sample_session\<rparr>),
      axios_get = (\<lambda>url params. Inr \<lparr>status = 200, data = sample_session\<rparr>),
      conversations_list =
        Inr (Some [\<lparr>channel_id = Some ''C0123ABCD9'', channel_name = Some ''general''\<rparr>]),
      users_list =
        Inr (Some [\<lparr>user_id = Some ''U042'', user_name = Some ''devin'',
                    real_name = None, user_profile = None\<rparr>]),
      chat_postMessage = (\<lambda>opts. Inr \<lparr>response_ts = Some ''1700000000.000100''\<rparr>)\<rparr>"

text \<open>Variations of it: the chat post throws; the agent answers every post with a 404
  and a given body; the agent answers every get with a given body; the agent answers the
  get of one session with a given body and every other get throws.\<close>

definition chat_down_env :: env where
  "chat_down_env =
     sample_env\<lparr>chat_postMessage :=
       (\<lambda>opts. Inl (Thrown ''Error: An API error occurred: channel_not_found''))\<rparr>"

definition agent_404_env :: "jsval \<Rightarrow> env" where
  "agent_404_env d =
     sample_env\<lparr>axios_post :=
       (\<lambda>url body. Inl (AxiosError (Some \<lparr>status = 404, data = d\<rparr>)))\<rparr>"

definition agent_get_env :: "jsval \<Rightarrow> env" where
  "agent_get_env d = sample_env\<lparr>axios_get := (\<lambda>url params. Inr \<lparr>status = 200, data = d\<rparr>)\<rparr>"

definition history_down_env :: "jsval \<Rightarrow> env" where
  "history_down_env d =
     sample_env\<lparr>axios_get :=
       (\<lambda>url params.
          if url = ''https://api.devin.ai/v1/session/abc123''
          then Inr \<lparr>status = 200, data = d\<rparr>
          else Inl (Thrown ''Error: Network Error''))\<rparr>"

section \<open>Verified properties\<close>

subsection \<open>Session-id normalizer\<close>

lemma take_devin_prefix: "\<not> prefix ''devin-'' s \<Longrightarrow> take 6 s \<noteq> ''devin-''"
  by (metis take_is_prefix)

text \<open>
  C2. \<open>normalizeSessionId\<close> is a total function on strings. On an input that begins
  with \<open>devin-\<close> it returns the input without that first occurrence of the prefix (so
  \<open>devin-devin-x\<close> becomes \<open>devin-x\<close>); on every other input it is the identity.
\<close>

theorem normalizeSessionId_strips_once:
  "normalizeSessionId (''devin-'' @ r) = r \<and>
   (\<not> prefix ''devin-'' s \<longrightarrow> normalizeSessionId s = s)"
  using take_devin_prefix [of s] by (auto simp: normalizeSessionId_def)

theorem normalizeSessionId_strips_once_witness:
  "normalizeSessionId (''devin-'' @ ''devin-7'') = ''devin-7'' \<and>
   \<not> prefix ''devin-'' ''dev-7'' \<and> normalizeSessionId ''dev-7'' = ''dev-7''"
  using normalizeSessionId_strips_once [of "''devin-7''" "''dev-7''"] by simp

subsection \<open>Channel-id resolver\<close>

lemma upper_alnum_class:
  "c \<in> set ''ABCDEFGHIJKLMNOPQRSTUVWXYZ0123456789'' \<Longrightarrow> upper_alnum c"
  by (auto simp: upper_alnum_def)

text \<open>
  C3. For a string made of \<open>C\<close> followed by at least eight characters, each an upper-case
  letter or a digit, \<open>getChannelId\<close> returns the input unchanged and issues no call, in
  every environment. Resolving the result again therefore gives the same result:
  resolution is the identity on canonical identifiers, hence idempotent there.
\<close>

theorem getChannelId_canonical:
  assumes "8 \<le> length rest"
    and "\<forall>c\<in>set rest. c \<in> set ''ABCDEFGHIJKLMNOPQRSTUVWXYZ0123456789''"
  shows "getChannelId e (JStr (CHR ''C'' # rest)) = (Inr (JStr (CHR ''C'' # rest)), []) \<and>
         (\<forall>v cs. getChannelId e (JStr (CHR ''C'' # rest)) = (Inr v, cs) \<longrightarrow>
                 getChannelId e v = (Inr v, []))"
proof -
  from assms(2) have "list_all upper_alnum rest"
    by (simp add: list_all_iff upper_alnum_class)
  with assms(1) have "matches_channel_id (CHR ''C'' # rest)" by simp
  then have "getChannelId e (JStr (CHR ''C'' # rest)) = (Inr (JStr (CHR ''C'' # rest)), [])"
    by (simp add: getChannelId_def)
  then show ?thesis by simp
qed

theorem getChannelId_canonical_witness:
  "8 \<le> length ''0123ABCD9'' \<and>
   set ''0123ABCD9'' \<subseteq> set ''ABCDEFGHIJKLMNOPQRSTUVWXYZ0123456789'' \<and>
   getChannelId sample_env (JStr ''C0123ABCD9'') = (Inr (JStr ''C0123ABCD9''), [])"
  using getChannelId_canonical [of "''0123ABCD9''" sample_env] by simp

subsection \<open>Required arguments\<close>

lemma arg_absent: "arg (Some []) k = JUndefined" "arg None k = JUndefined"
  by (simp_all add: arg_def obj_get_def)

text \<open>What the guards do reject is the empty string.\<close>

lemma empty_required_argument_rejected:
  "call_tool e ''create_devin_session'' (Some [(''prompt'', JStr [])]) =
     Inr (error_result ''Error: prompt is required'', [])"
  by (simp add: call_tool_def create_devin_session_def create_body_def arg_def obj_get_def
      number_or_undefined_def)

text \<open>
  C1. An invocation that omits a required argument should end in an error envelope with
  no outbound call. The handlers convert the argument with \<^verbatim>\<open>String(...)\<close> before the
  test \<^verbatim>\<open>if (!prompt)\<close>, so an omitted argument is the non-empty string
  \<open>undefined\<close> and passes the guard: in every environment, \<open>create_devin_session\<close>
  without \<open>prompt\<close> posts a session with the prompt \<open>undefined\<close>,
  \<open>get_devin_session\<close> without \<open>session_id\<close> gets the session \<open>undefined\<close>, and
  \<open>send_message_to_session\<close> without \<open>message\<close> posts the message \<open>undefined\<close>.
\<close>

theorem omitted_required_argument_reaches_service:
  "AxiosPost (BASE_URL e @ ''/session'')
      (JObj [(''prompt'', JStr ''undefined''), (''idempotent'', JBool False)]) (getHeaders e)
     \<in> set (calls_of (call_tool e ''create_devin_session'' (Some []))) \<and>
   AxiosGet (BASE_URL e @ ''/session/undefined'') [] (getHeaders e)
     \<in> set (calls_of (call_tool e ''get_devin_session'' (Some []))) \<and>
   AxiosPost (BASE_URL e @ ''/session/abc/message'')
      (JObj [(''message'', JStr ''undefined'')]) (getHeaders e)
     \<in> set (calls_of (call_tool e ''send_message_to_session''
                        (Some [(''session_id'', JStr ''abc'')])))"
proof (intro conjI)
  show "AxiosPost (BASE_URL e @ ''/session'')
      (JObj [(''prompt'', JStr ''undefined''), (''idempotent'', JBool False)]) (getHeaders e)
     \<in> set (calls_of (call_tool e ''create_devin_session'' (Some [])))"
    by (simp add: call_tool_def create_devin_session_def create_body_def arg_absent
        number_or_undefined_def create_request_body_def Let_def split: sum.splits prod.splits)
  show "AxiosGet (BASE_URL e @ ''/session/undefined'') [] (getHeaders e)
     \<in> set (calls_of (call_tool e ''get_devin_session'' (Some [])))"
    by (simp add: call_tool_def get_devin_session_def get_body_def arg_absent
        normalizeSessionId_def Let_def split: sum.splits prod.splits)
  show "AxiosPost (BASE_URL e @ ''/session/abc/message'')
      (JObj [(''message'', JStr ''undefined'')]) (getHeaders e)
     \<in> set (calls_of (call_tool e ''send_message_to_session''
                        (Some [(''session_id'', JStr ''abc'')])))"
    by (simp add: call_tool_def send_message_to_session_def send_body_def arg_def obj_get_def
        normalizeSessionId_def Let_def split: sum.splits prod.splits)
qed

text \<open>The variant without Slack has the same guard after the same conversion.\<close>

lemma plain_omitted_prompt_reaches_service:
  "AxiosPost (BASE_URL e @ ''/sessions'')
      (JObj [(''prompt'', JStr ''undefined''), (''idempotent'', JBool False)]) (getHeaders e)
     \<in> set (calls_of (plain_call_tool e ''create_devin_session'' (Some [])))"
  by (simp add: plain_call_tool_def plain_create_devin_session_def plain_create_body_def
      arg_absent number_or_undefined_def create_request_body_def Let_def
      split: sum.splits prod.splits)

text \<open>An argument whose conversion throws never reaches the guard: the handler throws
  ahead of its \<^verbatim>\<open>try\<close> and returns no envelope.\<close>

lemma unconvertible_argument_throws:
  "call_tool e ''get_devin_session'' (Some [(''session_id'', JObj [(''toString'', JNum 1)])]) =
     Inl (TypeError ''Cannot convert object to primitive value'')"
  by (simp add: call_tool_def get_devin_session_def arg_def obj_get_def)

subsection \<open>send\_message\_to\_session\<close>

lemma show_number_404: "show_number n2s 404 = ''404''"
proof -
  have "show_int 404 = ''404''" by code_simp
  then show ?thesis by (simp add: show_number_def)
qed

lemma getChannelId_calls:
  "snd (getChannelId e ch) = [] \<or> snd (getChannelId e ch) = [ConversationsList]"
  by (simp add: getChannelId_def Let_def split: sum.splits)

lemma sendSlackMessage_run:
  "sendSlackMessage e ch t th =
     (case fst (getChannelId e ch) of
        Inl err \<Rightarrow> (Inl err, snd (getChannelId e ch))
      | Inr cid \<Rightarrow>
          (chat_postMessage e \<lparr>channel = cid, msg_text = t, thread_ts = th, as_user = True\<rparr>,
           snd (getChannelId e ch)
           @ [ChatPostMessage \<lparr>channel = cid, msg_text = t, thread_ts = th, as_user = True\<rparr>]))"
  by (cases "getChannelId e ch") (simp add: sendSlackMessage_def Let_def split: sum.splits)

lemma sendSlackMessage_no_agent_call:
  "sendSlackMessage e ch t th = (res, c) \<Longrightarrow> AxiosPost u b h \<notin> set c"
  using getChannelId_calls [of e ch]
  by (auto simp: sendSlackMessage_run split: sum.splits)

text \<open>The only post to the agent in a run of the handler is the primary one, and it is
  issued only when both required arguments are non-empty.\<close>

lemma send_body_primary_post:
  assumes "send_body e sid msg ch th = (env, cs)"
    and "AxiosPost url body hs \<in> set cs"
  shows "sid \<noteq> [] \<and> msg \<noteq> [] \<and>
         url = BASE_URL e @ ''/session/'' @ normalizeSessionId sid @ ''/message'' \<and>
         body = JObj [(''message'', JStr msg)]"
proof -
  let ?url = "BASE_URL e @ ''/session/'' @ normalizeSessionId sid @ ''/message''"
  let ?body = "JObj [(''message'', JStr msg)]"
  from assms have ne: "sid \<noteq> []" "msg \<noteq> []"
    by (auto simp: send_body_def Let_def error_result_def split: if_splits)
  have "url = ?url \<and> body = ?body"
  proof (cases "axios_post e ?url ?body")
    case (Inl err)
    with assms ne show ?thesis
      by (auto simp: send_body_def Let_def)
  next
    case (Inr r')
    with assms ne show ?thesis
      by (auto simp: send_body_def Let_def
          dest: sendSlackMessage_no_agent_call split: if_splits sum.splits prod.splits)
  qed
  with ne show ?thesis by simp
qed

lemma send_message_converted:
  assumes "send_message_to_session e args = Inr (env, cs)"
  shows "\<exists>sid msg. js_String (NumberToString e) (arg args ''session_id'') = Inr sid \<and>
           js_String (NumberToString e) (arg args ''message'') = Inr msg \<and>
           send_body e sid msg (arg args ''slack_channel'') (arg args ''slack_thread_ts'')
             = (env, cs)"
  using assms by (auto simp: send_message_to_session_def split: sum.splits)

text \<open>
  C4, as amended. When the primary post of \<open>send_message_to_session\<close> returns a status
  in [200, 300), with any body (an empty one too), and the relay into the chat thread,
  which is attempted only when both \<open>slack_channel\<close> and \<open>slack_thread_ts\<close> are supplied,
  does not throw, the envelope has no error flag and its text is the serialization of an
  object whose \<open>success\<close> is \<open>true\<close> and whose \<open>response_data\<close> is the upstream body
  (\<open>{}\<close> for a falsy one).
\<close>

theorem send_message_2xx_success:
  assumes "send_message_to_session e args = Inr (env, cs)"
    and "AxiosPost url body hs \<in> set cs"
    and "axios_post e url body = Inr r"
    and "200 \<le> status r" and "status r < 300"
    and "\<not> (js_truthy (arg args ''slack_channel'') \<and> js_truthy (arg args ''slack_thread_ts'')) \<or>
         (\<exists>msg sr c. js_String (NumberToString e) (arg args ''message'') = Inr msg \<and>
            sendSlackMessage e (arg args ''slack_channel'') msg (arg args ''slack_thread_ts'')
              = (Inr sr, c))"
  shows "\<not> isError env \<and>
         (\<exists>payload. content_text env = [StringifyIndent (JObj payload)] \<and>
            map_of payload ''success'' = Some (JBool True) \<and>
            map_of payload ''response_data'' =
              Some (if js_truthy (data r) then data r else JObj []))"
proof -
  from send_message_converted [OF assms(1)] obtain sid msg where
    conv: "js_String (NumberToString e) (arg args ''session_id'') = Inr sid"
      "js_String (NumberToString e) (arg args ''message'') = Inr msg"
    and run: "send_body e sid msg (arg args ''slack_channel'') (arg args ''slack_thread_ts'')
             = (env, cs)"
    by blast
  from run assms(3,4,5,6) conv send_body_primary_post [OF run assms(2)]
  show ?thesis
    by (auto simp: send_body_def Let_def json_result_def
        split: if_splits sum.splits prod.splits)
qed

lemma sample_send_run:
  "send_message_to_session sample_env
     (Some [(''session_id'', JStr ''devin-abc123''), (''message'', JStr ''hello'')]) =
   Inr (json_result (JObj
      [(''status'', JStr ''Message sent successfully''),
       (''success'', JBool True),
       (''response_data'', sample_session),
       (''slack_response'', JNull)]),
    [AxiosPost ''https://api.devin.ai/v1/session/abc123/message''
       (JObj [(''message'', JStr ''hello'')]) (getHeaders sample_env)])"
  by (simp add: send_message_to_session_def send_body_def sample_env_def arg_def obj_get_def
      normalizeSessionId_def sample_session_def Let_def)

theorem send_message_2xx_success_witness:
  "\<exists>env cs. send_message_to_session sample_env
      (Some [(''session_id'', JStr ''devin-abc123''), (''message'', JStr ''hello'')])
      = Inr (env, cs) \<and> \<not> isError env"
proof -
  have post: "axios_post sample_env ''https://api.devin.ai/v1/session/abc123/message''
      (JObj [(''message'', JStr ''hello'')]) = Inr \<lparr>status = 200, data = sample_session\<rparr>"
    by (simp add: sample_env_def)
  have relay: "\<not> (js_truthy (arg (Some [(''session_id'', JStr ''devin-abc123''),
                     (''message'', JStr ''hello'')]) ''slack_channel'') \<and>
          js_truthy (arg (Some [(''session_id'', JStr ''devin-abc123''),
                     (''message'', JStr ''hello'')]) ''slack_thread_ts'')) \<or>
         (\<exists>msg sr c. js_String (NumberToString sample_env)
              (arg (Some [(''session_id'', JStr ''devin-abc123''),
                     (''message'', JStr ''hello'')]) ''message'') = Inr msg \<and>
            sendSlackMessage sample_env
              (arg (Some [(''session_id'', JStr ''devin-abc123''),
                     (''message'', JStr ''hello'')]) ''slack_channel'') msg
              (arg (Some [(''session_id'', JStr ''devin-abc123''),
                     (''message'', JStr ''hello'')]) ''slack_thread_ts'') = (Inr sr, c))"
    by (simp add: arg_def obj_get_def)
  from send_message_2xx_success [OF sample_send_run _ post _ _ relay]
  show ?thesis by (simp add: sample_send_run)
qed

text \<open>The claim as stated fails when the relay is requested and the chat post throws:
  the primary post returned 200, and the envelope is an error.\<close>

theorem send_message_2xx_relay_fails_counterexample:
  "axios_post chat_down_env ''https://api.devin.ai/v1/session/abc123/message''
      (JObj [(''message'', JStr ''hello'')]) = Inr \<lparr>status = 200, data = sample_session\<rparr> \<and>
   send_message_to_session chat_down_env
     (Some [(''session_id'', JStr ''devin-abc123''), (''message'', JStr ''hello''),
            (''slack_channel'', JStr ''C0123ABCD9''),
            (''slack_thread_ts'', JStr ''1700000000.000100'')]) =
   Inr (\<lparr>content_text =
        [Lit ''Unexpected error: Error: An API error occurred: channel_not_found''],
      isError = True\<rparr>,
    [AxiosPost ''https://api.devin.ai/v1/session/abc123/message''
       (JObj [(''message'', JStr ''hello'')]) (getHeaders chat_down_env),
     ChatPostMessage \<lparr>channel = JStr ''C0123ABCD9'', msg_text = ''hello'',
       thread_ts = JStr ''1700000000.000100'', as_user = True\<rparr>])"
  by (simp add: send_message_to_session_def send_body_def chat_down_env_def sample_env_def
      arg_def obj_get_def normalizeSessionId_def Let_def sendSlackMessage_def getChannelId_def
      upper_alnum_def catch_envelope_def getHeaders_def)





subsection \<open>get\_devin\_session\<close>

lemma obj_get_update_other:
  "k \<noteq> a \<Longrightarrow> obj_get (AList.update a x kvs) k = obj_get kvs k"
  by (simp add: obj_get_def update_conv')

lemma obj_get_update_same: "obj_get (AList.update a x kvs) a = x"
  by (simp add: obj_get_def update_conv')

lemma truthy_field_object:
  "js_get d k = Inr v \<Longrightarrow> js_truthy v \<Longrightarrow> \<exists>kvs. d = JObj kvs \<and> obj_get kvs k = v"
  by (cases d) auto

lemma with_session_ids_result:
  "with_session_ids d sid = Inr d' \<Longrightarrow>
   \<exists>s. sid = JStr s \<and>
       d' = JObj (AList.update ''session_id'' (JStr (normalizeSessionId s))
                   (AList.update ''original_session_id'' (JStr s) (js_spread d)))"
  by (cases sid) (auto simp: with_session_ids_def)

lemma reattach_preserves:
  assumes "reattach_session_id d = Inr d'"
    and "k \<noteq> ''session_id''" and "k \<noteq> ''original_session_id''"
  shows "js_get d' k = js_get d k"
proof (cases "js_truthy d \<and> (\<exists>v. js_get d ''session_id'' = Inr v \<and> js_truthy v)")
  case True
  then obtain v where v: "js_get d ''session_id'' = Inr v" "js_truthy v" by blast
  from truthy_field_object [OF v] obtain kvs where d: "d = JObj kvs" by blast
  from assms(1) True v have "with_session_ids d v = Inr d'"
    by (simp add: reattach_session_id_def)
  from with_session_ids_result [OF this] d assms(2,3) show ?thesis
    by (auto simp: obj_get_update_other)
next
  case False
  with assms(1) have "d' = d"
    by (auto simp: reattach_session_id_def split: if_splits sum.splits)
  then show ?thesis by simp
qed

lemma reattach_typed:
  assumes "\<forall>v. js_get d ''session_id'' = Inr v \<longrightarrow> js_truthy v \<longrightarrow> (\<exists>s. v = JStr s)"
  shows "\<exists>d'. reattach_session_id d = Inr d'"
proof (cases d)
  case (JObj kvs)
  with assms show ?thesis
    by (auto simp: reattach_session_id_def with_session_ids_def)
qed (auto simp: reattach_session_id_def)

text \<open>A failure of the history fetch leaves no mark on the envelope, whatever the
  primary data are: the handler answers as it does without \<open>fetch_slack_info\<close>.\<close>

lemma history_failure_invisible:
  assumes "sid \<noteq> []"
    and "axios_get e (BASE_URL e @ ''/session/'' @ normalizeSessionId sid) [] = Inr r"
    and "axios_get e (BASE_URL e @ ''/session/'' @ normalizeSessionId sid @ ''/message'') []
           = Inl err"
  shows "fst (get_body e sid True) = fst (get_body e sid False)"
  using assms by (simp add: get_body_def Let_def fetch_messages_def split: sum.splits)

text \<open>
  C6. Let \<open>get_devin_session\<close> be invoked with \<open>fetch_slack_info\<close> set, let the primary
  get succeed with session data (a session id, where the data carry one, is a string, as
  the data model has it), and let the get of the message history throw. Then the
  handler returns an envelope without error flag; its payload agrees with the primary
  data on every field other than the two session-id fields; and it is the envelope the
  same invocation returns without \<open>fetch_slack_info\<close>: the failure is swallowed.
\<close>

theorem get_session_history_failure_swallowed:
  assumes "js_truthy (arg args ''fetch_slack_info'')"
    and "js_String (NumberToString e) (arg args ''session_id'') = Inr sid"
    and "sid \<noteq> []"
    and "url = BASE_URL e @ ''/session/'' @ normalizeSessionId sid"
    and "axios_get e url [] = Inr r"
    and "axios_get e (url @ ''/message'') [] = Inl err"
    and "\<forall>v. js_get (data r) ''session_id'' = Inr v \<longrightarrow> js_truthy v \<longrightarrow> (\<exists>s. v = JStr s)"
  shows "\<exists>env d'. envelope_of (get_devin_session e args) = Some env \<and>
           \<not> isError env \<and>
           content_text env = [StringifyIndent d'] \<and>
           (\<forall>k. k \<noteq> ''session_id'' \<and> k \<noteq> ''original_session_id'' \<longrightarrow>
                js_get d' k = js_get (data r) k) \<and>
           (\<forall>args'. arg args' ''session_id'' = arg args ''session_id'' \<and>
                    \<not> js_truthy (arg args' ''fetch_slack_info'') \<longrightarrow>
                    envelope_of (get_devin_session e args') = Some env)"
proof -
  from reattach_typed [OF assms(7)] obtain d' where d': "reattach_session_id (data r) = Inr d'"
    by blast
  have plain: "fst (get_body e sid False) = json_result d'"
    using assms(3,4,5) d' by (simp add: get_body_def Let_def)
  from assms(3-6) have same: "fst (get_body e sid True) = fst (get_body e sid False)"
    by (intro history_failure_invisible) simp_all
  have run: "envelope_of (get_devin_session e args) = Some (json_result d')"
    using assms(1,2) same plain
    by (cases "get_body e sid True") (simp add: get_devin_session_def)
  have other: "envelope_of (get_devin_session e args') = Some (json_result d')"
    if "arg args' ''session_id'' = arg args ''session_id''"
      and "\<not> js_truthy (arg args' ''fetch_slack_info'')" for args'
    using that assms(2) plain
    by (cases "get_body e sid False") (simp add: get_devin_session_def)
  from run other reattach_preserves [OF d'] show ?thesis
    by (simp add: json_result_def)
qed

theorem get_session_history_failure_swallowed_witness:
  "\<exists>env. envelope_of (get_devin_session (history_down_env sample_session)
      (Some [(''session_id'', JStr ''devin-abc123''), (''fetch_slack_info'', JBool True)]))
      = Some env \<and> \<not> isError env \<and>
     envelope_of (get_devin_session (history_down_env sample_session)
      (Some [(''session_id'', JStr ''devin-abc123'')])) = Some env"
proof -
  let ?args = "Some [(''session_id'', JStr ''devin-abc123''), (''fetch_slack_info'', JBool True)]"
  let ?args' = "Some [(''session_id'', JStr ''devin-abc123'')]"
  let ?e = "history_down_env sample_session"
  have h1: "js_truthy (arg ?args ''fetch_slack_info'')"
    and h2: "js_String (NumberToString ?e) (arg ?args ''session_id'') = Inr ''devin-abc123''"
    and h3: "''devin-abc123'' \<noteq> []"
    and h4: "''https://api.devin.ai/v1/session/abc123'' =
        BASE_URL ?e @ ''/session/'' @ normalizeSessionId ''devin-abc123''"
    and h5: "axios_get ?e ''https://api.devin.ai/v1/session/abc123'' [] =
        Inr \<lparr>status = 200, data = sample_session\<rparr>"
    and h6: "axios_get ?e (''https://api.devin.ai/v1/session/abc123'' @ ''/message'') [] =
        Inl (Thrown ''Error: Network Error'')"
    by (simp_all add: arg_def obj_get_def history_down_env_def sample_env_def
        normalizeSessionId_def)
  have h7: "\<forall>v. js_get (data \<lparr>status = 200, data = sample_session\<rparr>) ''session_id'' = Inr v
      \<longrightarrow> js_truthy v \<longrightarrow> (\<exists>s. v = JStr s)"
    by (simp add: sample_session_def obj_get_def)
  have same: "arg ?args' ''session_id'' = arg ?args ''session_id'' \<and>
      \<not> js_truthy (arg ?args' ''fetch_slack_info'')"
    by (simp add: arg_def obj_get_def)
  from get_session_history_failure_swallowed [OF h1 h2 h3 h4 h5 h6 h7] same
  show ?thesis by blast
qed

text \<open>A run with the history down, and what it returns.\<close>

lemma history_down_run:
  "get_devin_session (history_down_env sample_session)
     (Some [(''session_id'', JStr ''devin-abc123''), (''fetch_slack_info'', JBool True)]) =
   Inr (json_result (JObj
      [(''session_id'', JStr ''abc123''),
       (''url'', JStr ''https://app.devin.ai/sessions/abc123''),
       (''is_new_session'', JBool True),
       (''original_session_id'', JStr ''devin-abc123'')]),
    [AxiosGet ''https://api.devin.ai/v1/session/abc123'' [] (getHeaders sample_env),
     AxiosGet ''https://api.devin.ai/v1/session/abc123/message'' [] (getHeaders sample_env)])"
  by (simp add: get_devin_session_def get_body_def history_down_env_def sample_env_def arg_def
      obj_get_def normalizeSessionId_def sample_session_def Let_def fetch_messages_def
      getHeaders_def reattach_session_id_def with_session_ids_def json_result_def)

text \<open>
  C7, as amended. When a \<open>get_devin_session\<close> invocation succeeds and the upstream
  response carries a truthy \<open>session_id\<close>, that id is a string, and the payload holds
  its normalized form under \<open>session_id\<close> and the id as the upstream sent it under
  \<open>original_session_id\<close>.
\<close>

theorem get_session_reattaches_ids:
  assumes "get_devin_session e args = Inr (env, cs)"
    and "\<not> isError env"
    and "js_String (NumberToString e) (arg args ''session_id'') = Inr sid"
    and "axios_get e (BASE_URL e @ ''/session/'' @ normalizeSessionId sid) [] = Inr r"
    and "js_get (data r) ''session_id'' = Inr v" and "js_truthy v"
  shows "\<exists>s payload. v = JStr s \<and>
           content_text env = [StringifyIndent (JObj payload)] \<and>
           map_of payload ''session_id'' = Some (JStr (normalizeSessionId s)) \<and>
           map_of payload ''original_session_id'' = Some (JStr s)"
proof -
  let ?url = "BASE_URL e @ ''/session/'' @ normalizeSessionId sid"
  let ?f = "js_truthy (arg args ''fetch_slack_info'')"
  from assms(1,3) have body: "get_body e sid ?f = (env, cs)"
    by (simp add: get_devin_session_def)
  with assms(2) have ne: "sid \<noteq> []"
    by (auto simp: get_body_def Let_def error_result_def)
  from truthy_field_object [OF assms(5,6)] obtain kvs
    where kvs: "data r = JObj kvs" "obj_get kvs ''session_id'' = v" by blast
  define d where "d = (if ?f then fetch_messages e ?url (data r) else data r)"
  have "\<exists>kvs'. d = JObj kvs' \<and> obj_get kvs' ''session_id'' = v"
    using kvs by (auto simp: d_def fetch_messages_def obj_get_update_other
        split: sum.splits)
  then obtain kvs' where d: "d = JObj kvs'" "obj_get kvs' ''session_id'' = v" by blast
  have re: "reattach_session_id d = with_session_ids d v"
    using d assms(6) by (simp add: reattach_session_id_def)
  have run: "env =
      (case reattach_session_id d of
         Inl err \<Rightarrow> catch_envelope e ''Error getting session'' err
       | Inr d' \<Rightarrow> json_result d')"
    using body assms(4) ne by (auto simp: get_body_def Let_def d_def split: sum.splits)
  have "\<exists>d'. reattach_session_id d = Inr d' \<and> env = json_result d'"
  proof (cases "reattach_session_id d")
    case (Inl err)
    with run assms(2) show ?thesis
      by (cases err) (simp_all add: catch_envelope_def)
  next
    case (Inr d')
    with run show ?thesis by simp
  qed
  then obtain d' where d': "reattach_session_id d = Inr d'" "env = json_result d'" by blast
  from with_session_ids_result [of d v d'] re d'(1) obtain s where
    s: "v = JStr s" "d' = JObj (AList.update ''session_id'' (JStr (normalizeSessionId s))
                   (AList.update ''original_session_id'' (JStr s) (js_spread d)))"
    by auto
  show ?thesis
    using s d'(2) by (auto simp: json_result_def update_conv')
qed

lemma sample_get_run:
  "get_devin_session sample_env (Some [(''session_id'', JStr ''devin-abc123'')]) =
   Inr (json_result (JObj
      [(''session_id'', JStr ''abc123''),
       (''url'', JStr ''https://app.devin.ai/sessions/abc123''),
       (''is_new_session'', JBool True),
       (''original_session_id'', JStr ''devin-abc123'')]),
    [AxiosGet ''https://api.devin.ai/v1/session/abc123'' [] (getHeaders sample_env)])"
  by (simp add: get_devin_session_def get_body_def sample_env_def arg_def
      obj_get_def normalizeSessionId_def sample_session_def Let_def
      getHeaders_def reattach_session_id_def with_session_ids_def json_result_def)

theorem get_session_reattaches_ids_witness:
  "\<exists>env cs payload. get_devin_session sample_env (Some [(''session_id'', JStr ''devin-abc123'')])
        = Inr (env, cs) \<and>
      content_text env = [StringifyIndent (JObj payload)] \<and>
      map_of payload ''session_id'' = Some (JStr ''abc123'') \<and>
      map_of payload ''original_session_id'' = Some (JStr ''devin-abc123'')"
proof -
  let ?args = "Some [(''session_id'', JStr ''devin-abc123'')]"
  have h2: "\<not> isError (json_result (JObj
      [(''session_id'', JStr ''abc123''),
       (''url'', JStr ''https://app.devin.ai/sessions/abc123''),
       (''is_new_session'', JBool True),
       (''original_session_id'', JStr ''devin-abc123'')]))"
    by (simp add: json_result_def)
  have h3: "js_String (NumberToString sample_env) (arg ?args ''session_id'') = Inr ''devin-abc123''"
    by (simp add: arg_def obj_get_def)
  have h4: "axios_get sample_env (BASE_URL sample_env @ ''/session/''
           @ normalizeSessionId ''devin-abc123'') [] =
           Inr \<lparr>status = 200, data = sample_session\<rparr>"
    by (simp add: sample_env_def)
  have h5: "js_get (data \<lparr>status = 200, data = sample_session\<rparr>) ''session_id'' =
      Inr (JStr ''devin-abc123'')"
    and h6: "js_truthy (JStr ''devin-abc123'')"
    by (simp_all add: sample_session_def obj_get_def)
  from get_session_reattaches_ids [OF sample_get_run h2 h3 h4 h5 h6]
  show ?thesis by (auto simp: normalizeSessionId_def sample_get_run)
qed

text \<open>The claim as stated fails on an upstream response without \<open>session_id\<close>: the
  guard \<^verbatim>\<open>if (data && data.session_id)\<close> skips the re-attachment and the payload has
  neither field.\<close>

theorem get_session_without_id_counterexample:
  "get_devin_session (agent_get_env (JObj [(''status'', JStr ''running'')]))
     (Some [(''session_id'', JStr ''devin-abc123'')]) =
   Inr (\<lparr>content_text = [StringifyIndent (JObj [(''status'', JStr ''running'')])],
      isError = False\<rparr>,
    [AxiosGet ''https://api.devin.ai/v1/session/abc123'' [] (getHeaders sample_env)])"
  by (simp add: get_devin_session_def get_body_def agent_get_env_def sample_env_def arg_def
      obj_get_def normalizeSessionId_def Let_def getHeaders_def reattach_session_id_def
      json_result_def)

subsection \<open>list\_devin\_sessions\<close>

lemma map_throwing_all2:
  "map_throwing f xs = Inr ys \<Longrightarrow> list_all2 (\<lambda>x y. f x = Inr y) xs ys"
  by (induction xs arbitrary: ys) (auto split: sum.splits)

lemma normalize_entry_result:
  assumes "normalize_entry x = Inr y"
  shows "(\<forall>v. js_get x ''session_id'' = Inr v \<and> js_truthy v \<longrightarrow>
            (\<exists>s. v = JStr s \<and>
                 js_get y ''session_id'' = Inr (JStr (normalizeSessionId s)) \<and>
                 js_get y ''original_session_id'' = Inr (JStr s))) \<and>
         (\<forall>v. js_get x ''session_id'' = Inr v \<and> \<not> js_truthy v \<longrightarrow> y = x) \<and>
         (\<forall>k. k \<noteq> ''session_id'' \<and> k \<noteq> ''original_session_id'' \<longrightarrow> js_get y k = js_get x k)"
proof -
  from assms obtain v where v: "js_get x ''session_id'' = Inr v"
    by (auto simp: normalize_entry_def split: sum.splits)
  show ?thesis
  proof (cases "js_truthy v")
    case True
    from truthy_field_object [OF v True] obtain kvs where x: "x = JObj kvs" by blast
    from assms v True have "with_session_ids x v = Inr y"
      by (simp add: normalize_entry_def)
    from with_session_ids_result [OF this] x v True show ?thesis
      by (auto simp: obj_get_update_other obj_get_update_same)
  next
    case False
    with assms v have "y = x" by (simp add: normalize_entry_def)
    with v False show ?thesis by auto
  qed
qed

text \<open>
  C8, as amended. When a \<open>list_devin_sessions\<close> invocation of the Slack-integrated
  variant succeeds on an upstream object whose \<open>sessions\<close> is an array, the payload is
  that object with \<open>sessions\<close> replaced, entry by entry: an entry with a truthy
  (non-empty) \<open>session_id\<close> has a string id, comes back with the normalized id under
  \<open>session_id\<close> and the original id under \<open>original_session_id\<close>; an entry whose
  \<open>session_id\<close> is absent or falsy comes back unchanged; and every field of an entry
  other than those two is unchanged.
\<close>

theorem list_sessions_normalizes_entries:
  assumes "list_devin_sessions e args = Inr (env, cs)"
    and "\<not> isError env"
    and "AxiosGet url params hs \<in> set cs"
    and "axios_get e url params = Inr r"
    and "data r = JObj kvs"
    and "obj_get kvs ''sessions'' = JArr entries"
  shows "\<exists>out. content_text env =
             [StringifyIndent (JObj (AList.update ''sessions'' (JArr out) kvs))] \<and>
           list_all2
             (\<lambda>x y.
                (\<forall>v. js_get x ''session_id'' = Inr v \<and> js_truthy v \<longrightarrow>
                   (\<exists>s. v = JStr s \<and>
                        js_get y ''session_id'' = Inr (JStr (normalizeSessionId s)) \<and>
                        js_get y ''original_session_id'' = Inr (JStr s))) \<and>
                (\<forall>v. js_get x ''session_id'' = Inr v \<and> \<not> js_truthy v \<longrightarrow> y = x) \<and>
                (\<forall>k. k \<noteq> ''session_id'' \<and> k \<noteq> ''original_session_id'' \<longrightarrow>
                     js_get y k = js_get x k))
             entries out"
proof -
  from assms(1) obtain limit offset where body: "list_body e limit offset = (env, cs)"
    by (auto simp: list_devin_sessions_def split: sum.splits)
  define ps where "ps = (if limit \<noteq> JUndefined then [(''limit'', limit)] else [])
       @ (if offset \<noteq> JUndefined then [(''offset'', offset)] else [])"
  from body assms(3) have own: "url = BASE_URL e @ ''/session'' \<and> params = ps"
    by (auto simp: list_body_def Let_def ps_def split: sum.splits)
  have env: "env = (case normalize_sessions (data r) of
                Inl err \<Rightarrow> catch_envelope e ''Error listing sessions'' err
              | Inr nd \<Rightarrow> json_result nd)"
    using body assms(4) own by (auto simp: list_body_def Let_def ps_def split: sum.splits)
  have "\<exists>nd. normalize_sessions (data r) = Inr nd \<and> env = json_result nd"
  proof (cases "normalize_sessions (data r)")
    case (Inl err)
    with env assms(2) show ?thesis by (cases err) (simp_all add: catch_envelope_def)
  next
    case (Inr nd)
    with env show ?thesis by simp
  qed
  then obtain nd where nd: "normalize_sessions (data r) = Inr nd" "env = json_result nd"
    by blast
  from nd(1) assms(5,6) obtain out where
    out: "map_throwing normalize_entry entries = Inr out"
      "nd = JObj (AList.update ''sessions'' (JArr out) kvs)"
    by (auto simp: normalize_sessions_def Let_def split: sum.splits)
  from map_throwing_all2 [OF out(1)] have "list_all2
             (\<lambda>x y.
                (\<forall>v. js_get x ''session_id'' = Inr v \<and> js_truthy v \<longrightarrow>
                   (\<exists>s. v = JStr s \<and>
                        js_get y ''session_id'' = Inr (JStr (normalizeSessionId s)) \<and>
                        js_get y ''original_session_id'' = Inr (JStr s))) \<and>
                (\<forall>v. js_get x ''session_id'' = Inr v \<and> \<not> js_truthy v \<longrightarrow> y = x) \<and>
                (\<forall>k. k \<noteq> ''session_id'' \<and> k \<noteq> ''original_session_id'' \<longrightarrow>
                     js_get y k = js_get x k))
             entries out"
    by (rule list_all2_mono) (rule normalize_entry_result)
  with nd(2) out(2) show ?thesis by (auto simp: json_result_def)
qed

lemma sample_list_run:
  "list_devin_sessions
     (agent_get_env (JObj [(''sessions'', JArr
        [JObj [(''session_id'', JStr ''devin-abc123''), (''status'', JStr ''running'')],
         JObj [(''status'', JStr ''blocked'')]])])) None =
   Inr (\<lparr>content_text = [StringifyIndent (JObj [(''sessions'', JArr
        [JObj [(''session_id'', JStr ''abc123''), (''status'', JStr ''running''),
               (''original_session_id'', JStr ''devin-abc123'')],
         JObj [(''status'', JStr ''blocked'')]])])], isError = False\<rparr>,
    [AxiosGet ''https://api.devin.ai/v1/session'' [] (getHeaders sample_env)])"
  by (simp add: list_devin_sessions_def list_body_def agent_get_env_def sample_env_def arg_def
      number_or_undefined_def Let_def getHeaders_def normalize_sessions_def obj_get_def
      normalize_entry_def with_session_ids_def normalizeSessionId_def json_result_def)

theorem list_sessions_normalizes_entries_witness:
  "\<exists>env cs. list_devin_sessions
     (agent_get_env (JObj [(''sessions'', JArr
        [JObj [(''session_id'', JStr ''devin-abc123''), (''status'', JStr ''running'')],
         JObj [(''status'', JStr ''blocked'')]])])) None = Inr (env, cs) \<and>
   content_text env =
   [StringifyIndent (JObj [(''sessions'', JArr
        [JObj [(''session_id'', JStr ''abc123''), (''status'', JStr ''running''),
               (''original_session_id'', JStr ''devin-abc123'')],
         JObj [(''status'', JStr ''blocked'')]])])]"
proof -
  let ?d = "JObj [(''sessions'', JArr
        [JObj [(''session_id'', JStr ''devin-abc123''), (''status'', JStr ''running'')],
         JObj [(''status'', JStr ''blocked'')]])]"
  have h4: "axios_get (agent_get_env ?d) ''https://api.devin.ai/v1/session'' [] =
      Inr \<lparr>status = 200, data = ?d\<rparr>"
    by (simp add: agent_get_env_def)
  have h6: "obj_get [(''sessions'', JArr
        [JObj [(''session_id'', JStr ''devin-abc123''), (''status'', JStr ''running'')],
         JObj [(''status'', JStr ''blocked'')]])] ''sessions'' = JArr
        [JObj [(''session_id'', JStr ''devin-abc123''), (''status'', JStr ''running'')],
         JObj [(''status'', JStr ''blocked'')]]"
    by (simp add: obj_get_def)
  from list_sessions_normalizes_entries [OF sample_list_run _ _ h4 _ h6]
  show ?thesis by (simp add: sample_list_run)
qed

text \<open>The claim as stated fails on an entry that has a \<open>session_id\<close> field holding
  the empty string: the guard \<^verbatim>\<open>if (session.session_id)\<close> returns the entry as it is,
  without \<open>original_session_id\<close>.\<close>

theorem list_sessions_empty_id_counterexample:
  "list_devin_sessions
     (agent_get_env (JObj [(''sessions'', JArr [JObj [(''session_id'', JStr [])]])])) None =
   Inr (\<lparr>content_text = [StringifyIndent
        (JObj [(''sessions'', JArr [JObj [(''session_id'', JStr [])]])])],
      isError = False\<rparr>,
    [AxiosGet ''https://api.devin.ai/v1/session'' [] (getHeaders sample_env)])"
  by (simp add: list_devin_sessions_def list_body_def agent_get_env_def sample_env_def arg_def
      number_or_undefined_def Let_def getHeaders_def normalize_sessions_def obj_get_def
      normalize_entry_def json_result_def)

subsection \<open>create\_devin\_session\<close>

lemma sendSlackMessage_chat_posts:
  "filter is_chat_post (snd (sendSlackMessage e ch t th)) =
     (case fst (getChannelId e ch) of
        Inl err \<Rightarrow> []
      | Inr cid \<Rightarrow>
          [ChatPostMessage \<lparr>channel = cid, msg_text = t, thread_ts = th, as_user = True\<rparr>])"
  using getChannelId_calls [of e ch]
  by (auto simp: sendSlackMessage_run split: sum.splits)

lemma sendSlackMessage_agent_posts:
  "filter is_agent_post (snd (sendSlackMessage e ch t th)) = []"
  using getChannelId_calls [of e ch]
  by (auto simp: sendSlackMessage_run split: sum.splits)

text \<open>The calls of the body, for a non-empty prompt.\<close>

lemma create_body_calls:
  assumes "prompt \<noteq> []"
  shows "snd (create_body e prompt snapshot max_acu idempotent chan) =
     AxiosPost (BASE_URL e @ ''/session'')
       (create_request_body prompt idempotent snapshot max_acu) (getHeaders e) #
     (case axios_post e (BASE_URL e @ ''/session'')
             (create_request_body prompt idempotent snapshot max_acu) of
        Inl err \<Rightarrow> []
      | Inr response \<Rightarrow>
          UsersList #
          snd (sendSlackMessage e chan
                (if find_devin_user e \<noteq> [] then ''<@'' @ find_devin_user e @ ''> '' @ prompt
                 else ''@Devin '' @ prompt) JUndefined))"
  using assms
  by (simp add: create_body_def Let_def split: sum.splits prod.splits)

lemma fix_bug_args:
  "js_String n2s (arg (Some [(''prompt'', JStr ''fix bug'')]) ''prompt'') = Inr ''fix bug''"
  "arg (Some [(''prompt'', JStr ''fix bug'')]) ''slack_channel'' = JUndefined"
  "arg (Some [(''prompt'', JStr ''fix bug'')]) ''idempotent'' = JUndefined"
  "arg (Some [(''prompt'', JStr ''fix bug'')]) ''machine_snapshot_id'' = JUndefined"
  "number_or_undefined n2s s2n (arg (Some [(''prompt'', JStr ''fix bug'')]) ''max_acu'')
     = Inr JUndefined"
  by (simp_all add: arg_def obj_get_def number_or_undefined_def)

lemma fix_bug_run:
  "create_devin_session e (Some [(''prompt'', JStr ''fix bug'')]) =
     Inr (create_body e ''fix bug'' JUndefined JUndefined False
            (JStr (SLACK_DEFAULT_CHANNEL e)))"
  by (simp add: create_devin_session_def fix_bug_args)

text \<open>
  C9, as amended. For \<open>create_devin_session\<close> with \<open>prompt = "fix bug"\<close> and no other
  argument, in every environment: exactly one post goes to the coding-agent service, to
  the create-session endpoint, and its body is exactly \<open>{prompt: "fix bug", idempotent:
  false}\<close>, so without \<open>machine_snapshot_id\<close> and \<open>max_acu\<close> (in the variant without
  Slack this is the only call at all). In the Slack-integrated variant, when that call
  succeeds and the default channel resolves, exactly one chat post is made, to the
  resolved channel, and its text is the mention followed by the prompt; when the create
  call throws or the channel does not resolve, no chat post is made.
\<close>

theorem create_fix_bug_calls:
  "filter is_agent_post
      (calls_of (create_devin_session e (Some [(''prompt'', JStr ''fix bug'')]))) =
     [AxiosPost (BASE_URL e @ ''/session'')
        (JObj [(''prompt'', JStr ''fix bug''), (''idempotent'', JBool False)]) (getHeaders e)] \<and>
   filter is_chat_post
      (calls_of (create_devin_session e (Some [(''prompt'', JStr ''fix bug'')]))) =
     (case axios_post e (BASE_URL e @ ''/session'')
             (JObj [(''prompt'', JStr ''fix bug''), (''idempotent'', JBool False)]) of
        Inl err \<Rightarrow> []
      | Inr response \<Rightarrow>
          (case fst (getChannelId e (JStr (SLACK_DEFAULT_CHANNEL e))) of
             Inl err \<Rightarrow> []
           | Inr cid \<Rightarrow>
               [ChatPostMessage
                  \<lparr>channel = cid,
                   msg_text = (if find_devin_user e \<noteq> [] then ''<@'' @ find_devin_user e @ ''> ''
                               else ''@Devin '') @ ''fix bug'',
                   thread_ts = JUndefined, as_user = True\<rparr>])) \<and>
   calls_of (plain_create_devin_session e (Some [(''prompt'', JStr ''fix bug'')])) =
     [AxiosPost (BASE_URL e @ ''/sessions'')
        (JObj [(''prompt'', JStr ''fix bug''), (''idempotent'', JBool False)]) (getHeaders e)]"
proof (intro conjI)
  have ne: "''fix bug'' \<noteq> []" by simp
  have calls: "calls_of (create_devin_session e (Some [(''prompt'', JStr ''fix bug'')])) =
      snd (create_body e ''fix bug'' JUndefined JUndefined False
            (JStr (SLACK_DEFAULT_CHANNEL e)))"
    by (cases "create_body e ''fix bug'' JUndefined JUndefined False
            (JStr (SLACK_DEFAULT_CHANNEL e))") (simp add: fix_bug_run)
  show "filter is_agent_post
      (calls_of (create_devin_session e (Some [(''prompt'', JStr ''fix bug'')]))) =
     [AxiosPost (BASE_URL e @ ''/session'')
        (JObj [(''prompt'', JStr ''fix bug''), (''idempotent'', JBool False)]) (getHeaders e)]"
    by (simp add: calls create_body_calls [OF ne] create_request_body_def
        sendSlackMessage_agent_posts split: sum.splits)
  show "filter is_chat_post
      (calls_of (create_devin_session e (Some [(''prompt'', JStr ''fix bug'')]))) =
     (case axios_post e (BASE_URL e @ ''/session'')
             (JObj [(''prompt'', JStr ''fix bug''), (''idempotent'', JBool False)]) of
        Inl err \<Rightarrow> []
      | Inr response \<Rightarrow>
          (case fst (getChannelId e (JStr (SLACK_DEFAULT_CHANNEL e))) of
             Inl err \<Rightarrow> []
           | Inr cid \<Rightarrow>
               [ChatPostMessage
                  \<lparr>channel = cid,
                   msg_text = (if find_devin_user e \<noteq> [] then ''<@'' @ find_devin_user e @ ''> ''
                               else ''@Devin '') @ ''fix bug'',
                   thread_ts = JUndefined, as_user = True\<rparr>]))"
    by (simp add: calls create_body_calls [OF ne] create_request_body_def
        sendSlackMessage_chat_posts split: sum.splits)
  show "calls_of (plain_create_devin_session e (Some [(''prompt'', JStr ''fix bug'')])) =
     [AxiosPost (BASE_URL e @ ''/sessions'')
        (JObj [(''prompt'', JStr ''fix bug''), (''idempotent'', JBool False)]) (getHeaders e)]"
    by (simp add: plain_create_devin_session_def plain_create_body_def fix_bug_args
        create_request_body_def Let_def split: sum.splits)
qed

text \<open>A run in which every service answers.\<close>

lemma sample_create_run:
  "create_devin_session sample_env (Some [(''prompt'', JStr ''fix bug'')]) =
   Inr (json_result (JObj
      [(''session_id'', JStr ''abc123''),
       (''original_session_id'', JStr ''devin-abc123''),
       (''url'', JStr ''https://app.devin.ai/sessions/abc123''),
       (''organization'', JStr ''Default Organization''),
       (''is_new_session'', JBool True),
       (''slack_message_ts'', JStr ''1700000000.000100''),
       (''slack_channel'', JStr ''general'')]),
    [AxiosPost ''https://api.devin.ai/v1/session''
       (JObj [(''prompt'', JStr ''fix bug''), (''idempotent'', JBool False)])
       (getHeaders sample_env),
     UsersList, ConversationsList,
     ChatPostMessage \<lparr>channel = JStr ''C0123ABCD9'', msg_text = ''<@U042> fix bug'',
       thread_ts = JUndefined, as_user = True\<rparr>])"
  by (simp add: fix_bug_run create_body_def sample_env_def
      create_request_body_def Let_def sendSlackMessage_def getChannelId_def find_devin_user_def
      is_devin_def create_payload_def sample_session_def obj_get_def normalizeSessionId_def
      opt_str_def getHeaders_def)

theorem create_fix_bug_calls_witness:
  "filter is_chat_post
     (calls_of (create_devin_session sample_env (Some [(''prompt'', JStr ''fix bug'')])))
     = [ChatPostMessage \<lparr>channel = JStr ''C0123ABCD9'', msg_text = ''<@U042> fix bug'',
          thread_ts = JUndefined, as_user = True\<rparr>]"
proof -
  have "filter is_chat_post
          (calls_of (create_devin_session sample_env (Some [(''prompt'', JStr ''fix bug'')]))) =
     (case axios_post sample_env (BASE_URL sample_env @ ''/session'')
             (JObj [(''prompt'', JStr ''fix bug''), (''idempotent'', JBool False)]) of
        Inl err \<Rightarrow> []
      | Inr response \<Rightarrow>
          (case fst (getChannelId sample_env (JStr (SLACK_DEFAULT_CHANNEL sample_env))) of
             Inl err \<Rightarrow> []
           | Inr cid \<Rightarrow>
               [ChatPostMessage
                  \<lparr>channel = cid,
                   msg_text = (if find_devin_user sample_env \<noteq> []
                               then ''<@'' @ find_devin_user sample_env @ ''> ''
                               else ''@Devin '') @ ''fix bug'',
                   thread_ts = JUndefined, as_user = True\<rparr>]))"
    using create_fix_bug_calls [of sample_env] by blast
  also have "\<dots> = [ChatPostMessage \<lparr>channel = JStr ''C0123ABCD9'',
      msg_text = ''<@U042> fix bug'', thread_ts = JUndefined, as_user = True\<rparr>]"
    by (simp add: sample_env_def getChannelId_def find_devin_user_def is_devin_def)
  finally show ?thesis .
qed

text \<open>The claim as stated fails when the create call itself fails: the handler
  returns from its \<^verbatim>\<open>catch\<close> and the trace holds the agent post only.\<close>

theorem create_agent_failure_no_chat_post_counterexample:
  "create_devin_session (agent_404_env (JObj [(''detail'', JStr ''Not Found'')]))
     (Some [(''prompt'', JStr ''fix bug'')]) =
   Inr (\<lparr>content_text =
        [Lit (''Error creating session: 404 - {'' @ [CHR 0x22] @ ''detail'' @ [CHR 0x22]
              @ '':'' @ [CHR 0x22] @ ''Not Found'' @ [CHR 0x22] @ ''}'')],
      isError = True\<rparr>,
    [AxiosPost ''https://api.devin.ai/v1/session''
       (JObj [(''prompt'', JStr ''fix bug''), (''idempotent'', JBool False)])
       (getHeaders sample_env)])"
  by (simp add: fix_bug_run create_body_def agent_404_env_def sample_env_def
      create_request_body_def Let_def catch_envelope_def show_number_404
      getHeaders_def template_stringify_def json_quote_def json_escape_def)

lemma catch_envelope_isError: "isError (catch_envelope e label err)"
  by (cases err) (simp_all add: catch_envelope_def)

lemma getChannelId_without_agent:
  "getChannelId (e\<lparr>axios_post := f\<rparr>) ch = getChannelId e ch"
  by (simp add: getChannelId_def Let_def split: sum.splits)

lemma catch_envelope_without_agent:
  "catch_envelope (e\<lparr>axios_post := f\<rparr>) label err = catch_envelope e label err"
  by (cases err) (simp_all add: catch_envelope_def split: option.splits)

lemma services_without_agent:
  "find_devin_user (e\<lparr>axios_post := f\<rparr>) = find_devin_user e"
  "sendSlackMessage (e\<lparr>axios_post := f\<rparr>) ch t th = sendSlackMessage e ch t th"
  "getHeaders (e\<lparr>axios_post := f\<rparr>) = getHeaders e"
  by (simp_all add: find_devin_user_def sendSlackMessage_run getChannelId_without_agent
      getHeaders_def split: sum.splits)

lemma create_body_unfold:
  assumes "prompt \<noteq> []"
    and "body = create_request_body prompt idempotent snapshot max_acu"
    and "msg = (if find_devin_user e \<noteq> [] then ''<@'' @ find_devin_user e @ ''> '' @ prompt
                else ''@Devin '' @ prompt)"
    and "url = BASE_URL e @ ''/session''"
  shows "create_body e prompt snapshot max_acu idempotent chan =
     (case axios_post e url body of
        Inl err \<Rightarrow> (catch_envelope e ''Error creating session'' err,
                    [AxiosPost url body (getHeaders e)])
      | Inr response \<Rightarrow>
          (case sendSlackMessage e chan msg JUndefined of
             (Inl err, c2) \<Rightarrow>
               (catch_envelope e ''Error creating session'' err,
                [AxiosPost url body (getHeaders e)] @ [UsersList] @ c2)
           | (Inr slackResponse, c2) \<Rightarrow>
               (case create_payload e (data response) slackResponse chan of
                  Inl err \<Rightarrow>
                    (catch_envelope e ''Error creating session'' err,
                     [AxiosPost url body (getHeaders e)] @ [UsersList] @ c2)
                | Inr v \<Rightarrow>
                    (json_result v, [AxiosPost url body (getHeaders e)] @ [UsersList] @ c2))))"
  using assms(1) unfolding assms(2,3,4) create_body_def Let_def
  by (simp only: if_False)

text \<open>
  C10. In the Slack-integrated variant, when the create-session post of
  \<open>create_devin_session\<close> succeeded and the chat post that follows throws \<open>err\<close>, the
  envelope has the error flag and is the \<^verbatim>\<open>catch\<close> envelope of \<open>err\<close> alone: it
  holds nothing of the agent's response, neither session id nor url, and it is the same
  envelope whatever the agent answers to the post. The session was created all the same:
  the successful post is in the trace.
\<close>

theorem create_chat_post_failure:
  assumes "create_devin_session e args = Inr (env, cs)"
    and "AxiosPost url body hs \<in> set cs"
    and "axios_post e url body = Inr r"
    and "ChatPostMessage opts \<in> set cs"
    and "chat_postMessage e opts = Inl err"
  shows "isError env \<and> env = catch_envelope e ''Error creating session'' err \<and>
         (\<forall>f. (\<forall>u b. \<exists>r'. f u b = Inr r') \<longrightarrow>
              envelope_of (create_devin_session (e\<lparr>axios_post := f\<rparr>) args) = Some env)"
proof -
  from assms(1) obtain prompt max_acu where
    conv: "js_String (NumberToString e) (arg args ''prompt'') = Inr prompt"
      "number_or_undefined (NumberToString e) (StringToNumber e) (arg args ''max_acu'')
         = Inr max_acu"
    by (auto simp: create_devin_session_def split: sum.splits)
  define snapshot where "snapshot = arg args ''machine_snapshot_id''"
  define idem where "idem = js_truthy (arg args ''idempotent'')"
  define chan where "chan =
     (if js_truthy (arg args ''slack_channel'') then arg args ''slack_channel''
      else JStr (SLACK_DEFAULT_CHANNEL e))"
  define rbody where "rbody = create_request_body prompt idem snapshot max_acu"
  define msg where "msg =
     (if find_devin_user e \<noteq> [] then ''<@'' @ find_devin_user e @ ''> '' @ prompt
      else ''@Devin '' @ prompt)"
  define rurl where "rurl = BASE_URL e @ ''/session''"
  have top: "create_devin_session e' args = Inr (create_body e' prompt snapshot max_acu idem chan)"
    if "NumberToString e' = NumberToString e" "StringToNumber e' = StringToNumber e"
       "SLACK_DEFAULT_CHANNEL e' = SLACK_DEFAULT_CHANNEL e" for e'
    using conv that
    by (simp add: create_devin_session_def snapshot_def idem_def chan_def)
  from top [of e] assms(1) have body: "create_body e prompt snapshot max_acu idem chan = (env, cs)"
    by simp
  obtain res c2 where slackrun: "sendSlackMessage e chan msg JUndefined = (res, c2)"
    by (cases "sendSlackMessage e chan msg JUndefined") blast
  from body assms(2) have ne: "prompt \<noteq> []"
    by (auto simp: create_body_def Let_def)
  have run: "create_body e' prompt snapshot max_acu idem chan =
     (case axios_post e' rurl rbody of
        Inl err \<Rightarrow> (catch_envelope e' ''Error creating session'' err,
                    [AxiosPost rurl rbody (getHeaders e')])
      | Inr response \<Rightarrow>
          (case res of
             Inl err \<Rightarrow>
               (catch_envelope e' ''Error creating session'' err,
                [AxiosPost rurl rbody (getHeaders e')] @ [UsersList] @ c2)
           | Inr slackResponse \<Rightarrow>
               (case create_payload e' (data response) slackResponse chan of
                  Inl err \<Rightarrow>
                    (catch_envelope e' ''Error creating session'' err,
                     [AxiosPost rurl rbody (getHeaders e')] @ [UsersList] @ c2)
                | Inr v \<Rightarrow>
                    (json_result v, [AxiosPost rurl rbody (getHeaders e')] @ [UsersList] @ c2))))"
    if "BASE_URL e' = BASE_URL e"
      "find_devin_user e' = find_devin_user e"
      "sendSlackMessage e' chan msg JUndefined = sendSlackMessage e chan msg JUndefined" for e'
  proof -
    have "create_body e' prompt snapshot max_acu idem chan =
     (case axios_post e' rurl rbody of
        Inl err \<Rightarrow> (catch_envelope e' ''Error creating session'' err,
                    [AxiosPost rurl rbody (getHeaders e')])
      | Inr response \<Rightarrow>
          (case sendSlackMessage e' chan msg JUndefined of
             (Inl err, c2) \<Rightarrow>
               (catch_envelope e' ''Error creating session'' err,
                [AxiosPost rurl rbody (getHeaders e')] @ [UsersList] @ c2)
           | (Inr slackResponse, c2) \<Rightarrow>
               (case create_payload e' (data response) slackResponse chan of
                  Inl err \<Rightarrow>
                    (catch_envelope e' ''Error creating session'' err,
                     [AxiosPost rurl rbody (getHeaders e')] @ [UsersList] @ c2)
                | Inr v \<Rightarrow>
                    (json_result v, [AxiosPost rurl rbody (getHeaders e')] @ [UsersList] @ c2))))"
      by (rule create_body_unfold [OF ne])
        (simp_all only: that rbody_def msg_def rurl_def)
    then show ?thesis
      by (cases res) (simp_all only: that(3) slackrun prod.case sum.case)
  qed
  have self: "BASE_URL e = BASE_URL e" "find_devin_user e = find_devin_user e"
      "sendSlackMessage e chan msg JUndefined = sendSlackMessage e chan msg JUndefined"
    by (rule refl)+
  note run_e = run [OF self]
  from sendSlackMessage_no_agent_call [OF slackrun]
  have no_post: "AxiosPost url body hs \<notin> set c2" .
  from body assms(2) no_post have own: "url = rurl \<and> body = rbody"
    unfolding run_e by (auto split: sum.splits)
  with assms(3) have post: "axios_post e rurl rbody = Inr r"
    by simp
  from body assms(4) post have mem: "ChatPostMessage opts \<in> set c2"
    unfolding run_e by (auto split: sum.splits)
  moreover have "is_chat_post (ChatPostMessage opts)" by simp
  ultimately have "filter is_chat_post c2 \<noteq> []"
    by (metis filter_empty_conv)
  then have "filter is_chat_post (snd (sendSlackMessage e chan msg JUndefined)) \<noteq> []"
    by (simp add: slackrun)
  then obtain cid where cid: "fst (getChannelId e chan) = Inr cid"
    by (auto simp: sendSlackMessage_chat_posts split: sum.splits)
  have c2: "c2 = snd (getChannelId e chan) @ [ChatPostMessage
      \<lparr>channel = cid, msg_text = msg, thread_ts = JUndefined, as_user = True\<rparr>]"
    and res: "res = chat_postMessage e
      \<lparr>channel = cid, msg_text = msg, thread_ts = JUndefined, as_user = True\<rparr>"
    using slackrun cid by (simp_all add: sendSlackMessage_run)
  from mem c2 getChannelId_calls [of e chan]
  have "opts = \<lparr>channel = cid, msg_text = msg, thread_ts = JUndefined, as_user = True\<rparr>"
    by auto
  with assms(5) res have res': "res = Inl err" by simp
  from body post res' have env: "env = catch_envelope e ''Error creating session'' err"
    unfolding run_e by simp
  have "envelope_of (create_devin_session (e\<lparr>axios_post := f\<rparr>) args) = Some env"
    if "\<forall>u b. \<exists>r'. f u b = Inr r'" for f
  proof -
    from that obtain r' where "f rurl rbody = Inr r'" by blast
    moreover have "create_body (e\<lparr>axios_post := f\<rparr>) prompt snapshot max_acu idem chan =
       (case axios_post (e\<lparr>axios_post := f\<rparr>) rurl rbody of
        Inl err \<Rightarrow> (catch_envelope (e\<lparr>axios_post := f\<rparr>) ''Error creating session'' err,
                    [AxiosPost rurl rbody (getHeaders (e\<lparr>axios_post := f\<rparr>))])
      | Inr response \<Rightarrow>
          (case res of
             Inl err \<Rightarrow>
               (catch_envelope (e\<lparr>axios_post := f\<rparr>) ''Error creating session'' err,
                [AxiosPost rurl rbody (getHeaders (e\<lparr>axios_post := f\<rparr>))] @ [UsersList] @ c2)
           | Inr slackResponse \<Rightarrow>
               (case create_payload (e\<lparr>axios_post := f\<rparr>) (data response) slackResponse chan of
                  Inl err \<Rightarrow>
                    (catch_envelope (e\<lparr>axios_post := f\<rparr>) ''Error creating session'' err,
                     [AxiosPost rurl rbody (getHeaders (e\<lparr>axios_post := f\<rparr>))] @ [UsersList] @ c2)
                | Inr v \<Rightarrow>
                    (json_result v, [AxiosPost rurl rbody (getHeaders (e\<lparr>axios_post := f\<rparr>))]
                       @ [UsersList] @ c2))))"
      by (rule run) (simp_all add: services_without_agent)
    moreover have "create_devin_session (e\<lparr>axios_post := f\<rparr>) args =
        Inr (create_body (e\<lparr>axios_post := f\<rparr>) prompt snapshot max_acu idem chan)"
      by (rule top) simp_all
    ultimately show ?thesis using res' env
      by (simp add: services_without_agent catch_envelope_without_agent)
  qed
  with env show ?thesis by (simp add: catch_envelope_isError)
qed

lemma chat_down_create_run:
  "create_devin_session chat_down_env (Some [(''prompt'', JStr ''fix bug'')]) =
   Inr (\<lparr>content_text =
        [Lit ''Unexpected error: Error: An API error occurred: channel_not_found''],
      isError = True\<rparr>,
    [AxiosPost ''https://api.devin.ai/v1/session''
       (JObj [(''prompt'', JStr ''fix bug''), (''idempotent'', JBool False)])
       (getHeaders sample_env),
     UsersList, ConversationsList,
     ChatPostMessage \<lparr>channel = JStr ''C0123ABCD9'', msg_text = ''<@U042> fix bug'',
       thread_ts = JUndefined, as_user = True\<rparr>])"
  by (simp add: fix_bug_run create_body_def chat_down_env_def sample_env_def
      create_request_body_def Let_def sendSlackMessage_def
      getChannelId_def find_devin_user_def is_devin_def catch_envelope_def getHeaders_def)

theorem create_chat_post_failure_witness:
  "envelope_of (create_devin_session chat_down_env (Some [(''prompt'', JStr ''fix bug'')])) =
     Some (catch_envelope chat_down_env ''Error creating session''
       (Thrown ''Error: An API error occurred: channel_not_found'')) \<and>
   envelope_of (create_devin_session
          (chat_down_env\<lparr>axios_post := (\<lambda>u b. Inr \<lparr>status = 201, data = JNull\<rparr>)\<rparr>)
          (Some [(''prompt'', JStr ''fix bug'')])) =
     Some (catch_envelope chat_down_env ''Error creating session''
       (Thrown ''Error: An API error occurred: channel_not_found''))"
proof -
  have post: "axios_post chat_down_env ''https://api.devin.ai/v1/session''
       (JObj [(''prompt'', JStr ''fix bug''), (''idempotent'', JBool False)]) =
       Inr \<lparr>status = 200, data = sample_session\<rparr>"
    by (simp add: chat_down_env_def sample_env_def)
  have chat: "chat_postMessage chat_down_env
       \<lparr>channel = JStr ''C0123ABCD9'', msg_text = ''<@U042> fix bug'',
        thread_ts = JUndefined, as_user = True\<rparr> =
       Inl (Thrown ''Error: An API error occurred: channel_not_found'')"
    by (simp add: chat_down_env_def)
  have total: "\<forall>u b. \<exists>r'. (\<lambda>u b. Inr \<lparr>status = 201, data = JNull\<rparr>) u b = Inr r'"
    by simp
  from create_chat_post_failure [OF chat_down_create_run _ post _ chat] total
  show ?thesis by (simp add: chat_down_create_run)
qed

end
